theory Spec2Isabelle
  imports Complex_Main
begin

section \<open>Data model\<close>

text \<open>
  JavaScript numbers are modelled as real numbers (coordinates, sizes, speeds, times) and as
  integers (score, level, high score); rounding of IEEE doubles is outside this model.
  A property access on \<^verbatim>\<open>undefined\<close> raises a TypeError: the fields of \<^verbatim>\<open>Game\<close> that
  are only assigned by \<^verbatim>\<open>reset()\<close> are options, and reading one that is \<open>None\<close> is the
  branch \<open>Throw TypeError\<close>. A loop that does not end is \<open>Hang\<close>.
\<close>

datatype error = TypeError

datatype 'a outcome = Hang | Throw error | Ok 'a

fun andThen :: "'a outcome \<Rightarrow> ('a \<Rightarrow> 'b outcome) \<Rightarrow> 'b outcome" where
  "andThen Hang f = Hang"
| "andThen (Throw e) f = Throw e"
| "andThen (Ok a) f = f a"

datatype game_state = LOADING | IDLE | PLAYING | GAME_OVER

text \<open>The class of an entity object, which \<^verbatim>\<open>instanceof\<close> tests.\<close>

datatype entity_class = Bird | Tube | Background

record entity =
  cls :: entity_class
  x :: real
  y :: real
  width :: real
  height :: real

text \<open>Tubes and background tiles: entities that scroll with a horizontal speed.\<close>

record scroller = entity +
  speed :: real
  initialX :: real

record bird = entity +
  fallingSpeed :: real
  flapSpeed :: real

datatype sound = FlapSound | HitSound | DieSound | PointSound | SwooshingSound

text \<open>
  What the game does to its collaborators (draw engine, audio), in the order it does it.
\<close>

datatype effect =
    Clear
  | DrawCenteredText game_state
  | DrawWithScores game_state int int
  | DrawScene
  | DrawScoreLabel int
  | ResizeSurface real real
  | Play sound

record config =
  canvas_width :: real
  canvas_height :: real
  bird_startX :: real
  bird_width :: real
  bird_height :: real
  bird_flapSpeed :: real
  tubes_speed :: real
  background_width :: real
  background_height :: real
  background_speed :: real
  gravitation :: real
  levelUpAcceleration :: real
  fps :: real

text \<open>
  Modelled from the spec: the class Scene is not among the sources. It owns the live entity
  collection and the viewport dimensions. Every entity object has an identity (a number that is
  never reused), so that \<^verbatim>\<open>delete()\<close> removes that object and no other.
\<close>

record scene =
  scene_width :: real
  scene_height :: real
  entities :: "(nat \<times> scroller) list"

text \<open>
  Modelled from the spec: the class TubesDriver is not among the sources. Its state here is the
  horizontal speed it gives to the pairs it spawns; its alive pairs are the Tube entities of the
  scene.
\<close>

record driver =
  driver_speed :: real

record game =
  config :: config
  currentState :: game_state
  score :: int
  level :: int
  highScore :: int
  lastUpdate :: "real option"
  storage :: "string \<Rightarrow> int option"
  canvas :: "real \<times> real"
  scene :: "scene option"
  bird :: "bird option"
  tubesDriver :: "driver option"
  backgrounds :: "nat list"
  nextId :: nat
  effects :: "effect list"
  pending :: nat

text \<open>
  The methods of classes that are not among the sources and whose behaviour the spec leaves open
  are parameters of the model: \<^verbatim>\<open>TubesDriver.update()\<close> (random spawning and recycling of
  pairs: from the driver, the scene and the next free identity to the new driver, entity
  collection and next free identity), \<^verbatim>\<open>update(delta)\<close> of Tube and Background,
  \<^verbatim>\<open>AnimatedEntity.update(delta)\<close> and \<^verbatim>\<open>Entity.collide(entity)\<close>, which Bird calls through
  \<^verbatim>\<open>super\<close>, and the overlap test of RectCollisionEngine between the bird and an entity.
\<close>

record collaborators =
  tubesDriverUpdate :: "driver \<Rightarrow> scene \<Rightarrow> nat \<Rightarrow> driver \<times> (nat \<times> scroller) list \<times> nat"
  scrollerUpdate :: "real \<Rightarrow> scroller \<Rightarrow> scroller"
  animatedUpdate :: "real \<Rightarrow> bird \<Rightarrow> bird"
  entityCollide :: "scroller \<Rightarrow> bird \<Rightarrow> bird"
  intersects :: "bird \<Rightarrow> scroller \<Rightarrow> bool"

section \<open>State changes that do not start the loop\<close>

definition emit :: "effect list \<Rightarrow> game \<Rightarrow> game" where
  "emit es g = g\<lparr>effects := effects g @ es\<rparr>"

text \<open>
  \<^verbatim>\<open>Game._changeState(state)\<close> up to the call of the state's handler, and the handlers of
  LOADING, IDLE and GAME_OVER, which draw an overlay. The handler of PLAYING calls
  \<^verbatim>\<open>_loop()\<close>; it is added in \<open>changeState\<close> below, once the loop is defined.
\<close>

definition enterState :: "game_state \<Rightarrow> game \<Rightarrow> game" where
  "enterState st g =
     (let g1 = (emit [Clear] g)\<lparr>currentState := st\<rparr>
      in case st of
           PLAYING \<Rightarrow> g1
         | LOADING \<Rightarrow> emit [DrawCenteredText LOADING] g1
         | IDLE \<Rightarrow> emit [DrawWithScores IDLE (score g1) (highScore g1)] g1
         | GAME_OVER \<Rightarrow> emit [DrawWithScores GAME_OVER (score g1) (highScore g1)] g1)"

text \<open>\<^verbatim>\<open>Game.gameOver()\<close>: \<^verbatim>\<open>this._changeState(this.STATES.GAME_OVER)\<close>.\<close>

definition gameOver :: "game \<Rightarrow> game" where
  "gameOver g = enterState GAME_OVER g"

section \<open>Bird\<close>

text \<open>
  Modelled from the spec: PhysicsEngine.update is not among the sources. Semi-implicit Euler:
  velocity += gravitation * delta; y += velocity * delta.
\<close>

definition PhysicsEngine_update :: "real \<Rightarrow> real \<Rightarrow> bird \<Rightarrow> bird" where
  "PhysicsEngine_update grav delta b =
     (let v = fallingSpeed b + grav * delta
      in b\<lparr>y := y b + v * delta, fallingSpeed := v\<rparr>)"

text \<open>
  The methods of Bird take the object (\<^verbatim>\<open>this\<close>) and the game; the bird of the game is that
  object, so the updated object is stored back. \<^verbatim>\<open>this.scene\<close> is the scene of the game.
\<close>

definition Bird_update :: "collaborators \<Rightarrow> real \<Rightarrow> bird \<Rightarrow> game \<Rightarrow> game outcome" where
  "Bird_update ext delta b g =
     (let b1 = animatedUpdate ext delta b;
          b2 = PhysicsEngine_update (gravitation (config g)) delta b1;
          b3 = (if y b2 < 0 then b2\<lparr>y := 0\<rparr> else b2);
          g1 = g\<lparr>bird := Some b3\<rparr>
      in case scene g1 of
           None \<Rightarrow> Throw TypeError
         | Some sc \<Rightarrow>
             if y b3 + height b3 \<ge> scene_height sc
             then Ok (gameOver (emit [Play DieSound] g1))
             else Ok g1)"

definition Bird_collide :: "collaborators \<Rightarrow> scroller \<Rightarrow> bird \<Rightarrow> game \<Rightarrow> game" where
  "Bird_collide ext e b g =
     (let g1 = g\<lparr>bird := Some (entityCollide ext e b)\<rparr>
      in if cls e = Tube then gameOver (emit [Play HitSound] g1) else g1)"

definition Bird_flap :: "bird \<Rightarrow> game \<Rightarrow> game" where
  "Bird_flap b g =
     emit [Play FlapSound] (g\<lparr>bird := Some (b\<lparr>fallingSpeed := - flapSpeed b\<rparr>)\<rparr>)"

section \<open>Scene and TubesDriver\<close>

text \<open>Modelled from the spec: Scene.resize updates the viewport dimensions.\<close>

definition Scene_resize :: "real \<Rightarrow> real \<Rightarrow> scene \<Rightarrow> scene" where
  "Scene_resize w h sc = sc\<lparr>scene_width := w, scene_height := h\<rparr>"

text \<open>Modelled from the spec: Scene.getEntities returns the live entities.\<close>

definition Scene_getEntities :: "scene \<Rightarrow> scroller list" where
  "Scene_getEntities sc = map snd (entities sc)"

text \<open>
  Modelled from the spec: \<^verbatim>\<open>delete()\<close> removes an entity from the live set of its scene.
  An object that is not in the scene (deleted before, or made for an earlier scene) is not
  found there, and nothing changes.
\<close>

definition Entity_delete :: "nat \<Rightarrow> game \<Rightarrow> game" where
  "Entity_delete i g =
     g\<lparr>scene := map_option (\<lambda>sc. sc\<lparr>entities := filter (\<lambda>p. fst p \<noteq> i) (entities sc)\<rparr>) (scene g)\<rparr>"

text \<open>
  Modelled from the spec: the constructor of Background is not among the sources. The new tile
  has the position, size and speed it is given, remembers its first x as \<^verbatim>\<open>initialX\<close>, and joins
  the live entities of the scene under a fresh identity.
\<close>

definition new_Background :: "real \<Rightarrow> real \<Rightarrow> real \<Rightarrow> real \<Rightarrow> real \<Rightarrow> scene \<Rightarrow> game \<Rightarrow> (nat \<times> scroller) \<times> game" where
  "new_Background x0 y0 w h v sc g =
     (let background = \<lparr>cls = Background, x = x0, y = y0, width = w, height = h,
                         speed = v, initialX = x0\<rparr>
      in ((nextId g, background),
          g\<lparr>scene := Some (sc\<lparr>entities := entities sc @ [(nextId g, background)]\<rparr>),
            nextId := Suc (nextId g)\<rparr>))"

text \<open>
  Modelled from the spec: TubesDriver.getTubes returns, in ascending x order, all alive pairs
  whose horizontal span intersects [from, to].
\<close>

definition getTubes :: "real \<Rightarrow> real \<Rightarrow> scene \<Rightarrow> scroller list" where
  "getTubes from to sc =
     sort_key x (filter (\<lambda>e. cls e = Tube \<and> x e \<le> to \<and> from \<le> x e + width e)
                        (Scene_getEntities sc))"

text \<open>
  Modelled from the spec: TubesDriver.increaseSpeed adds to every alive pair's horizontal speed
  and to the driver's speed used for future spawns. The alive pairs are the Tube objects of the
  scene the driver was constructed with, so the method changes the driver and that scene.
\<close>

definition TubesDriver_increaseSpeed :: "real \<Rightarrow> driver \<Rightarrow> scene \<Rightarrow> driver \<times> scene" where
  "TubesDriver_increaseSpeed a d sc =
     (d\<lparr>driver_speed := driver_speed d + a\<rparr>,
      sc\<lparr>entities := map (\<lambda>p. if cls (snd p) = Tube
                                then (fst p, (snd p)\<lparr>speed := speed (snd p) + a\<rparr>)
                                else p)
                          (entities sc)\<rparr>)"

text \<open>
  \<^verbatim>\<open>this._tubesDriver.update()\<close>: the method itself is a parameter; it works on the driver and
  on the scene the driver was constructed with.
\<close>

definition TubesDriver_update :: "collaborators \<Rightarrow> game \<Rightarrow> game outcome" where
  "TubesDriver_update ext g =
     (case tubesDriver g of
        None \<Rightarrow> Throw TypeError
      | Some d \<Rightarrow>
          (case scene g of
             None \<Rightarrow> Throw TypeError
           | Some sc \<Rightarrow>
               (case tubesDriverUpdate ext d sc (nextId g) of
                  (d', es, n) \<Rightarrow>
                    Ok (g\<lparr>tubesDriver := Some d', scene := Some (sc\<lparr>entities := es\<rparr>),
                          nextId := n\<rparr>))))"

text \<open>
  Modelled from the spec: the collision engine calls \<^verbatim>\<open>collide\<close> on the bird for every
  collidable entity that overlaps it; of the scrolling entities the tubes are collidable, the
  background tiles never are, and neither takes an action of its own on collision.
\<close>

definition collisions :: "collaborators \<Rightarrow> (nat \<times> scroller) list \<Rightarrow> game \<Rightarrow> game" where
  "collisions ext es g =
     fold (\<lambda>p g'. case bird g' of
                     None \<Rightarrow> g'
                   | Some b \<Rightarrow>
                       if cls (snd p) = Tube \<and> intersects ext b (snd p)
                       then Bird_collide ext (snd p) b g' else g')
          es g"

text \<open>
  Modelled from the spec: Scene.update calls \<^verbatim>\<open>update(delta)\<close> once on every live entity,
  the bird included, and then runs the collision engine.
\<close>

definition Scene_update :: "collaborators \<Rightarrow> real \<Rightarrow> game \<Rightarrow> game outcome" where
  "Scene_update ext delta g =
     (case scene g of
        None \<Rightarrow> Throw TypeError
      | Some sc \<Rightarrow>
          (let es = map (\<lambda>p. (fst p, scrollerUpdate ext delta (snd p))) (entities sc);
               g1 = g\<lparr>scene := Some (sc\<lparr>entities := es\<rparr>)\<rparr>
           in andThen (case bird g1 of None \<Rightarrow> Ok g1 | Some b \<Rightarrow> Bird_update ext delta b g1)
                (\<lambda>g2. Ok (collisions ext es g2))))"

section \<open>Game: score, level, update, loop\<close>

definition increaseLevel :: "game \<Rightarrow> game outcome" where
  "increaseLevel g =
     (let g1 = g\<lparr>level := level g + 1\<rparr>
      in case scene g1 of
           None \<Rightarrow> Throw TypeError
         | Some sc \<Rightarrow>
             (let es = map (\<lambda>p. if cls (snd p) = Tube \<or> cls (snd p) = Background
                                 then (fst p, (snd p)\<lparr>speed := speed (snd p) + levelUpAcceleration (config g1)\<rparr>)
                                 else p)
                           (entities sc);
                  g2 = g1\<lparr>scene := Some (sc\<lparr>entities := es\<rparr>)\<rparr>
              in case tubesDriver g2 of
                   None \<Rightarrow> Throw TypeError
                 | Some d \<Rightarrow>
                     (case TubesDriver_increaseSpeed (levelUpAcceleration (config g2)) d
                             (sc\<lparr>entities := es\<rparr>) of
                        (d', sc') \<Rightarrow> Ok (g2\<lparr>tubesDriver := Some d', scene := Some sc'\<rparr>))))"

definition updateScore :: "real \<Rightarrow> game \<Rightarrow> game outcome" where
  "updateScore delta g =
     (case bird g of
        None \<Rightarrow> Throw TypeError
      | Some b \<Rightarrow>
          (let birdCenter = x b + width b / 2
           in case tubesDriver g of
                None \<Rightarrow> Throw TypeError
              | Some d \<Rightarrow>
                  (case scene g of
                     None \<Rightarrow> Throw TypeError
                   | Some sc \<Rightarrow>
                       (case getTubes birdCenter birdCenter sc of
                          [] \<Rightarrow> Ok g
                        | crossingTube # _ \<Rightarrow>
                            (let tubeCenter = x crossingTube + width crossingTube / 2;
                                 threshold = (tubes_speed (config g)
                                              + levelUpAcceleration (config g) * of_int (level g)) * delta
                             in if tubeCenter + threshold / 2 \<ge> birdCenter
                                   \<and> tubeCenter - threshold / 2 \<le> birdCenter
                                then (let g1 = emit [Play PointSound] (g\<lparr>score := score g + 1\<rparr>)
                                      in if score g1 \<ge> 10 * (level g1 + 1)
                                         then increaseLevel g1 else Ok g1)
                                else Ok g)))))"

text \<open>\<^verbatim>\<open>this._storage.save(key, value)\<close>: a synchronous write to the key-value storage.\<close>

definition save :: "string \<Rightarrow> int \<Rightarrow> game \<Rightarrow> game" where
  "save k v g = g\<lparr>storage := (storage g)(k \<mapsto> v)\<rparr>"

definition update :: "collaborators \<Rightarrow> real \<Rightarrow> game \<Rightarrow> game outcome" where
  "update ext delta g =
     andThen (TubesDriver_update ext g) (\<lambda>g1.
     andThen (Scene_update ext delta g1) (\<lambda>g2.
     andThen (updateScore delta g2) (\<lambda>g3.
       if score g3 > highScore g3
       then (let g4 = g3\<lparr>highScore := score g3\<rparr> in Ok (save ''highScore'' (highScore g4) g4))
       else Ok g3)))"

definition draw :: "game \<Rightarrow> game outcome" where
  "draw g =
     (case scene g of
        None \<Rightarrow> Throw TypeError
      | Some sc \<Rightarrow> Ok (emit [Clear, DrawScene, DrawScoreLabel (score g)] g))"

text \<open>
  \<^verbatim>\<open>Game._loop()\<close>; \<open>now\<close> is what \<^verbatim>\<open>Date.now()\<close> returns, and \<^verbatim>\<open>null\<close> counts as 0 in the
  subtraction. \<^verbatim>\<open>requestAnimationFrame(debounce(...))\<close> leaves one more call of the loop
  pending.
\<close>

definition loop :: "collaborators \<Rightarrow> real \<Rightarrow> game \<Rightarrow> game outcome" where
  "loop ext now g =
     (let delta = (now - (case lastUpdate g of None \<Rightarrow> 0 | Some l \<Rightarrow> l)) / 1000
      in andThen (update ext delta g) (\<lambda>g1.
           if currentState g1 = PLAYING
           then andThen (draw g1) (\<lambda>g2. Ok (g2\<lparr>lastUpdate := Some now, pending := Suc (pending g2)\<rparr>))
           else Ok g1))"

definition changeState :: "collaborators \<Rightarrow> real \<Rightarrow> game_state \<Rightarrow> game \<Rightarrow> game outcome" where
  "changeState ext now st g =
     (case st of
        PLAYING \<Rightarrow> loop ext now (enterState PLAYING g)
      | LOADING \<Rightarrow> Ok (enterState LOADING g)
      | IDLE \<Rightarrow> Ok (enterState IDLE g)
      | GAME_OVER \<Rightarrow> Ok (enterState GAME_OVER g))"

section \<open>Game: backgrounds, resize, reset, start, actions\<close>

text \<open>
  The \<^verbatim>\<open>while\<close> loop of \<^verbatim>\<open>Game._generateBackgrounds\<close>. \<open>None\<close> is a loop that never ends.
  The condition reads \<^verbatim>\<open>this._scene.width\<close> and the body \<^verbatim>\<open>this._scene.height\<close>, so
  without a scene the first of them raises. The tile pushed last is the new
  \<^verbatim>\<open>lastBackground\<close>.
\<close>

partial_function (option) generateBackgrounds_loop ::
  "real \<Rightarrow> scroller option \<Rightarrow> game \<Rightarrow> game outcome option" where
  "generateBackgrounds_loop backgroundAspectRatio lastBackground g =
     (case scene g of
        None \<Rightarrow> Some (Throw TypeError)
      | Some sc \<Rightarrow>
          if (case lastBackground of None \<Rightarrow> True | Some lb \<Rightarrow> initialX lb < scene_width sc)
          then (let x0 = (case lastBackground of None \<Rightarrow> 0 | Some lb \<Rightarrow> x lb + width lb)
                in case new_Background x0 0 (scene_height sc * backgroundAspectRatio)
                          (scene_height sc) (background_speed (config g)) sc g of
                     (background, g1) \<Rightarrow>
                       generateBackgrounds_loop backgroundAspectRatio (Some (snd background))
                         (g1\<lparr>backgrounds := backgrounds g1 @ [fst background]\<rparr>))
          else Some (Ok g))"

declare generateBackgrounds_loop.simps [code]

text \<open>
  \<^verbatim>\<open>Game._generateBackgrounds\<close>. The array \<^verbatim>\<open>this._backgrounds\<close> is not emptied here: the
  deleted tiles stay in it and the new ones are pushed behind them. (For a configured
  background height of 0 JavaScript computes the ratio as Infinity or NaN, which the reals do
  not have; the model is about configurations with a height other than 0.)
\<close>

definition generateBackgrounds :: "game \<Rightarrow> game outcome" where
  "generateBackgrounds g =
     (let g1 = fold Entity_delete (backgrounds g) g;
          backgroundAspectRatio = background_width (config g1) / background_height (config g1)
      in case generateBackgrounds_loop backgroundAspectRatio None g1 of
           None \<Rightarrow> Hang
         | Some r \<Rightarrow> r)"

text \<open>
  \<^verbatim>\<open>Game._resize()\<close>; \<open>w\<close> and \<open>h\<close> are \<^verbatim>\<open>clientWidth\<close> and \<^verbatim>\<open>clientHeight\<close> of the
  canvas, \<open>now\<close> is the time the loop reads if the state's handler runs it.
\<close>

definition resize :: "collaborators \<Rightarrow> real \<Rightarrow> real \<Rightarrow> real \<Rightarrow> game \<Rightarrow> game outcome" where
  "resize ext w h now g =
     (let g1 = g\<lparr>canvas := (w, h)\<rparr>
      in case scene g1 of
           None \<Rightarrow> Throw TypeError
         | Some sc \<Rightarrow>
             (let g2 = emit [ResizeSurface w h] (g1\<lparr>scene := Some (Scene_resize w h sc)\<rparr>)
              in andThen (generateBackgrounds g2) (\<lambda>g3.
                   changeState ext now (currentState g3) g3)))"

definition configureScene :: "game \<Rightarrow> game" where
  "configureScene g =
     g\<lparr>scene := Some \<lparr>scene_width = canvas_width (config g),
                       scene_height = canvas_height (config g), entities = []\<rparr>\<rparr>"

text \<open>
  \<^verbatim>\<open>Game._createEntities()\<close>. Modelled from the spec: the constructors of TubesDriver and of
  Bird (through AnimatedEntity) are not among the sources; the driver starts with the configured
  speed and no pairs, the bird with the position, size and flap speed it is given and at rest.
\<close>

definition createEntities :: "game \<Rightarrow> game outcome" where
  "createEntities g =
     andThen (generateBackgrounds (g\<lparr>backgrounds := []\<rparr>)) (\<lambda>g1.
       let g2 = g1\<lparr>tubesDriver := Some \<lparr>driver_speed = tubes_speed (config g1)\<rparr>\<rparr>
       in case scene g2 of
            None \<Rightarrow> Throw TypeError
          | Some sc \<Rightarrow>
              Ok (g2\<lparr>bird := Some \<lparr>cls = Bird, x = bird_startX (config g2),
                                    y = scene_height sc / 2 - bird_height (config g2) / 2,
                                    width = bird_width (config g2),
                                    height = bird_height (config g2),
                                    fallingSpeed = 0,
                                    flapSpeed = bird_flapSpeed (config g2)\<rparr>\<rparr>))"

definition reset :: "collaborators \<Rightarrow> real \<Rightarrow> real \<Rightarrow> real \<Rightarrow> game \<Rightarrow> game outcome" where
  "reset ext w h now g =
     andThen (changeState ext now IDLE g) (\<lambda>g1.
     andThen (resize ext w h now (configureScene (g1\<lparr>score := 0, level := 0\<rparr>))) (\<lambda>g2.
       createEntities g2))"

text \<open>
  \<^verbatim>\<open>Game.start()\<close>; \<open>t0\<close> is the time \<^verbatim>\<open>start\<close> stores in \<^verbatim>\<open>_lastUpdate\<close>, \<open>t1\<close> the time the
  first run of the loop reads.
\<close>

definition start :: "collaborators \<Rightarrow> real \<Rightarrow> real \<Rightarrow> real \<Rightarrow> real \<Rightarrow> game \<Rightarrow> game outcome" where
  "start ext w h t0 t1 g =
     andThen (reset ext w h t0 g) (\<lambda>g1.
       changeState ext t1 PLAYING ((emit [Play SwooshingSound] g1)\<lparr>lastUpdate := Some t0\<rparr>))"

text \<open>
  \<^verbatim>\<open>Game._handleAction()\<close>: the table is built on every call and indexed by the current state;
  calling a missing entry would raise a TypeError.
\<close>

definition actionByStateMap ::
  "collaborators \<Rightarrow> real \<Rightarrow> real \<Rightarrow> real \<Rightarrow> real \<Rightarrow> (game_state \<times> (game \<Rightarrow> game outcome)) list" where
  "actionByStateMap ext w h t0 t1 =
     [(LOADING, \<lambda>g. Ok g),
      (IDLE, \<lambda>g. start ext w h t0 t1 g),
      (PLAYING, \<lambda>g. case bird g of None \<Rightarrow> Throw TypeError | Some b \<Rightarrow> Ok (Bird_flap b g)),
      (GAME_OVER, \<lambda>g. start ext w h t0 t1 g)]"

definition handleAction :: "collaborators \<Rightarrow> real \<Rightarrow> real \<Rightarrow> real \<Rightarrow> real \<Rightarrow> game \<Rightarrow> game outcome" where
  "handleAction ext w h t0 t1 g =
     (case map_of (actionByStateMap ext w h t0 t1) (currentState g) of
        None \<Rightarrow> Throw TypeError
      | Some action \<Rightarrow> action g)"

section \<open>The host: events that call into the game\<close>

text \<open>
  The browser calls \<^verbatim>\<open>_handleAction\<close> on an input, \<^verbatim>\<open>_resize\<close> on a (debounced) resize
  event, and \<^verbatim>\<open>_loop\<close> once for every pending animation-frame request. Each event carries what
  the handler reads from the outside: the client size of the canvas and the clock.
\<close>

datatype event =
    Action real real real real
  | Resize real real real
  | Frame real

fun step :: "collaborators \<Rightarrow> event \<Rightarrow> game \<Rightarrow> game outcome" where
  "step ext (Action w h t0 t1) g = handleAction ext w h t0 t1 g"
| "step ext (Resize w h now) g = resize ext w h now g"
| "step ext (Frame now) g =
     (if pending g = 0 then Ok g else loop ext now (g\<lparr>pending := pending g - 1\<rparr>))"

fun run :: "collaborators \<Rightarrow> event list \<Rightarrow> game \<Rightarrow> game outcome" where
  "run ext [] g = Ok g"
| "run ext (e # es) g = andThen (step ext e g) (run ext es)"

text \<open>What a player sees of the progress of a game: state, score, level, high score, and the
  position of the bird.\<close>

definition progress :: "game \<Rightarrow> game_state \<times> int \<times> int \<times> int \<times> (real \<times> real) option" where
  "progress g = (currentState g, score g, level g, highScore g,
                 map_option (\<lambda>b. (x b, y b)) (bird g))"

fun observe :: "game outcome \<Rightarrow> (game_state \<times> int \<times> int \<times> int \<times> (real \<times> real) option) option" where
  "observe (Ok g) = Some (progress g)"
| "observe Hang = None"
| "observe (Throw e) = None"

section \<open>A concrete configuration\<close>

text \<open>
  Collaborators that spawn no tubes, scroll every tile and tube to the left at its speed, have
  no animation state, and never report an overlap; a flat configuration; and the game as the
  constructor leaves it.
\<close>

definition example_ext :: collaborators where
  "example_ext = \<lparr>tubesDriverUpdate = (\<lambda>d sc n. (d, entities sc, n)),
                  scrollerUpdate = (\<lambda>delta e. e\<lparr>x := x e - speed e * delta\<rparr>),
                  animatedUpdate = (\<lambda>delta b. b),
                  entityCollide = (\<lambda>e b. b),
                  intersects = (\<lambda>b e. False)\<rparr>"

definition example_config :: config where
  "example_config = \<lparr>canvas_width = 100, canvas_height = 100, bird_startX = 10,
     bird_width = 10, bird_height = 10, bird_flapSpeed = 50, tubes_speed = 100,
     background_width = 50, background_height = 100, background_speed = 10,
     gravitation = 100, levelUpAcceleration = 10, fps = 60\<rparr>"

definition initial_game :: game where
  "initial_game = \<lparr>config = example_config, currentState = LOADING, score = 0, level = 0,
     highScore = 0, lastUpdate = None, storage = Map.empty, canvas = (100, 100), scene = None,
     bird = None, tubesDriver = None, backgrounds = [], nextId = 0, effects = [], pending = 0\<rparr>"

text \<open>A game in play, one point below the first level-up, with a tube just right of the bird.\<close>

definition example_tube :: scroller where
  "example_tube = \<lparr>cls = Tube, x = 184, y = 0, width = 50, height = 30, speed = 100,
                   initialX = 400\<rparr>"

definition example_tile :: scroller where
  "example_tile = \<lparr>cls = Background, x = 0, y = 0, width = 400, height = 100, speed = 10,
                   initialX = 0\<rparr>"

definition example_bird :: bird where
  "example_bird = \<lparr>cls = Bird, x = 195, y = 45, width = 10, height = 10, fallingSpeed = 0,
                   flapSpeed = 50\<rparr>"

definition example_scene :: scene where
  "example_scene = \<lparr>scene_width = 300, scene_height = 100,
                    entities = [(0, example_tile), (1, example_tube)]\<rparr>"

definition example_game :: game where
  "example_game = \<lparr>config = example_config, currentState = PLAYING, score = 9, level = 0,
     highScore = 3, lastUpdate = Some 0, storage = Map.empty, canvas = (300, 100),
     scene = Some example_scene, bird = Some example_bird,
     tubesDriver = Some \<lparr>driver_speed = 100\<rparr>, backgrounds = [0], nextId = 2, effects = [],
     pending = 1\<rparr>"

text \<open>The same game after one update of a tenth of a second.\<close>

definition example_game_after :: game where
  "example_game_after = \<lparr>config = example_config, currentState = PLAYING, score = 10, level = 1,
     highScore = 10, lastUpdate = Some 0, storage = [''highScore'' \<mapsto> 10], canvas = (300, 100),
     scene = Some \<lparr>scene_width = 300, scene_height = 100,
                   entities = [(0, example_tile\<lparr>x := -1, speed := 20\<rparr>),
                               (1, example_tube\<lparr>x := 174, speed := 120\<rparr>)]\<rparr>,
     bird = Some (example_bird\<lparr>y := 46, fallingSpeed := 10\<rparr>),
     tubesDriver = Some \<lparr>driver_speed = 110\<rparr>, backgrounds = [0], nextId = 2,
     effects = [Play PointSound], pending = 1\<rparr>"

text \<open>A game that is over, with the bird on the floor.\<close>

definition fallen_game :: game where
  "fallen_game = example_game\<lparr>currentState := GAME_OVER,
                              bird := Some (example_bird\<lparr>y := 95\<rparr>)\<rparr>"

text \<open>The game in play with the tube under the bird: the centre of the bird is at 200, the
  centre of the tube at 199.\<close>

definition scoring_scene :: scene where
  "scoring_scene = example_scene\<lparr>entities := [(0, example_tile), (1, example_tube\<lparr>x := 174\<rparr>)]\<rparr>"

definition scoring_game :: game where
  "scoring_game = example_game\<lparr>scene := Some scoring_scene\<rparr>"

text \<open>The game \<open>initial_game\<close> after the \<^verbatim>\<open>reset()\<close> that ends \<^verbatim>\<open>prepare()\<close>, with a
  canvas of 100 by 100.\<close>

definition idle_game :: game where
  "idle_game = \<lparr>config = example_config, currentState = IDLE, score = 0, level = 0,
     highScore = 0, lastUpdate = None, storage = Map.empty, canvas = (100, 100),
     scene = Some \<lparr>scene_width = 100, scene_height = 100,
       entities =
         [(0, \<lparr>cls = Background, x = 0, y = 0, width = 50, height = 100, speed = 10, initialX = 0\<rparr>),
          (1, \<lparr>cls = Background, x = 50, y = 0, width = 50, height = 100, speed = 10, initialX = 50\<rparr>),
          (2, \<lparr>cls = Background, x = 100, y = 0, width = 50, height = 100, speed = 10, initialX = 100\<rparr>),
          (3, \<lparr>cls = Background, x = 0, y = 0, width = 50, height = 100, speed = 10, initialX = 0\<rparr>),
          (4, \<lparr>cls = Background, x = 50, y = 0, width = 50, height = 100, speed = 10, initialX = 50\<rparr>),
          (5, \<lparr>cls = Background, x = 100, y = 0, width = 50, height = 100, speed = 10, initialX = 100\<rparr>)]\<rparr>,
     bird = Some \<lparr>cls = Bird, x = 10, y = 45, width = 10, height = 10, fallingSpeed = 0,
                  flapSpeed = 50\<rparr>,
     tubesDriver = Some \<lparr>driver_speed = 100\<rparr>, backgrounds = [3, 4, 5], nextId = 6,
     effects = [Clear, DrawWithScores IDLE 0 0, ResizeSurface 100 100, Clear,
                DrawWithScores IDLE 0 0],
     pending = 0\<rparr>"

section \<open>Properties\<close>

subsection \<open>Auxiliary facts\<close>

lemmas example_defs = example_game_def example_scene_def example_bird_def example_tube_def
  example_tile_def example_config_def example_ext_def

lemma andThen_Ok:
  "andThen m f = Ok r \<longleftrightarrow> (\<exists>a. m = Ok a \<and> f a = Ok r)"
  by (cases m) simp_all

lemma gameOver_simps:
  "currentState (gameOver g) = GAME_OVER"
  "effects (gameOver g) = effects g @ [Clear, DrawWithScores GAME_OVER (score g) (highScore g)]"
  "gameOver g = g\<lparr>currentState := GAME_OVER,
                  effects := effects g @ [Clear, DrawWithScores GAME_OVER (score g) (highScore g)]\<rparr>"
  by (simp_all add: gameOver_def enterState_def emit_def)

text \<open>What the callbacks of the bird, the scene and the driver leave alone.\<close>

lemma Bird_collide_frame:
  "highScore (Bird_collide ext e b g) = highScore g"
  "storage (Bird_collide ext e b g) = storage g"
  "pending (Bird_collide ext e b g) = pending g"
  "lastUpdate (Bird_collide ext e b g) = lastUpdate g"
  "score (Bird_collide ext e b g) = score g"
  "level (Bird_collide ext e b g) = level g"
  "scene (Bird_collide ext e b g) = scene g"
  "tubesDriver (Bird_collide ext e b g) = tubesDriver g"
  "config (Bird_collide ext e b g) = config g"
  by (simp_all add: Bird_collide_def Let_def gameOver_simps emit_def)

lemma collisions_frame:
  "highScore (collisions ext es g) = highScore g
   \<and> storage (collisions ext es g) = storage g
   \<and> pending (collisions ext es g) = pending g
   \<and> lastUpdate (collisions ext es g) = lastUpdate g
   \<and> score (collisions ext es g) = score g
   \<and> level (collisions ext es g) = level g
   \<and> scene (collisions ext es g) = scene g
   \<and> tubesDriver (collisions ext es g) = tubesDriver g
   \<and> config (collisions ext es g) = config g"
  unfolding collisions_def
  by (induction es arbitrary: g) (simp_all add: Bird_collide_frame split: option.splits)

lemma Bird_update_frame:
  assumes "Bird_update ext delta b g = Ok g'"
  shows "highScore g' = highScore g \<and> storage g' = storage g \<and> pending g' = pending g
     \<and> lastUpdate g' = lastUpdate g \<and> score g' = score g \<and> level g' = level g
     \<and> scene g' = scene g \<and> tubesDriver g' = tubesDriver g \<and> config g' = config g"
  using assms
  by (auto simp add: Bird_update_def Let_def gameOver_simps emit_def
           split: option.splits if_splits)

lemma TubesDriver_update_frame:
  assumes "TubesDriver_update ext g = Ok g'"
  shows "highScore g' = highScore g \<and> storage g' = storage g \<and> pending g' = pending g
     \<and> lastUpdate g' = lastUpdate g \<and> score g' = score g \<and> level g' = level g
     \<and> currentState g' = currentState g \<and> config g' = config g"
  using assms
  by (auto simp add: TubesDriver_update_def split: option.splits prod.splits)

lemma Scene_update_frame:
  assumes "Scene_update ext delta g = Ok g'"
  shows "highScore g' = highScore g \<and> storage g' = storage g \<and> pending g' = pending g
     \<and> lastUpdate g' = lastUpdate g \<and> score g' = score g \<and> level g' = level g
     \<and> config g' = config g"
proof -
  from assms obtain sc where sc: "scene g = Some sc"
    by (auto simp add: Scene_update_def split: option.splits)
  define es where "es = map (\<lambda>p. (fst p, scrollerUpdate ext delta (snd p))) (entities sc)"
  define g1 where "g1 = g\<lparr>scene := Some (sc\<lparr>entities := es\<rparr>)\<rparr>"
  from assms sc
  have "\<exists>g2. (case bird g of None \<Rightarrow> Ok g1 | Some b \<Rightarrow> Bird_update ext delta b g1) = Ok g2
      \<and> g' = collisions ext es g2"
    unfolding g1_def es_def by (auto simp add: Scene_update_def Let_def andThen_Ok)
  then obtain g2 where
    g2: "(case bird g of None \<Rightarrow> Ok g1 | Some b \<Rightarrow> Bird_update ext delta b g1) = Ok g2"
    and g': "g' = collisions ext es g2"
    by blast
  have "highScore g2 = highScore g1 \<and> storage g2 = storage g1 \<and> pending g2 = pending g1
     \<and> lastUpdate g2 = lastUpdate g1 \<and> score g2 = score g1 \<and> level g2 = level g1
     \<and> config g2 = config g1"
    using g2 by (cases "bird g") (auto dest: Bird_update_frame)
  then show ?thesis
    by (simp add: g' collisions_frame g1_def)
qed

lemma increaseLevel_frame:
  assumes "increaseLevel g = Ok g'"
  shows "highScore g' = highScore g \<and> storage g' = storage g \<and> pending g' = pending g
     \<and> lastUpdate g' = lastUpdate g \<and> score g' = score g \<and> level g' = level g + 1
     \<and> currentState g' = currentState g \<and> config g' = config g \<and> bird g' = bird g
     \<and> effects g' = effects g"
  using assms
  by (auto simp add: increaseLevel_def TubesDriver_increaseSpeed_def Let_def
           split: option.splits)

lemma updateScore_frame:
  assumes "updateScore delta g = Ok g'"
  shows "highScore g' = highScore g \<and> storage g' = storage g \<and> pending g' = pending g
     \<and> lastUpdate g' = lastUpdate g \<and> currentState g' = currentState g \<and> config g' = config g
     \<and> bird g' = bird g"
  using assms
  by (auto simp add: updateScore_def Let_def emit_def
           split: option.splits list.splits if_splits dest!: increaseLevel_frame)

subsection \<open>Bird\<close>

text \<open>
  C10. For every prior falling speed, \<^verbatim>\<open>Bird.flap()\<close> sets the falling speed to exactly
  \<open>- flapSpeed\<close>: the result does not depend on the speed before, so the velocity is replaced
  and no impulse is added to it. Position, size and every other field of the bird are as
  before, and of the game only the bird changes and the flap sound is played.
\<close>

theorem flap_replaces_velocity:
  "bird (Bird_flap b g) = Some (b\<lparr>fallingSpeed := - flapSpeed b\<rparr>)
   \<and> Bird_flap (b\<lparr>fallingSpeed := v\<rparr>) g = Bird_flap b g
   \<and> Bird_flap b g = g\<lparr>bird := Some (b\<lparr>fallingSpeed := - flapSpeed b\<rparr>),
                       effects := effects g @ [Play FlapSound]\<rparr>"
  by (simp add: Bird_flap_def emit_def)

text \<open>
  C6. \<^verbatim>\<open>Bird.collide(e)\<close> calls \<^verbatim>\<open>gameOver()\<close> if and only if \<open>e\<close> is a Tube: for a Tube
  the state becomes GAME_OVER, the hit sound is played and the GAME_OVER overlay is drawn; for
  an entity of any other class nothing of the game changes but what \<^verbatim>\<open>Entity.collide\<close>
  does to the bird, so the state of the game is as before.
\<close>

theorem collide_gameOver_iff_Tube:
  "(cls e = Tube \<longrightarrow>
      currentState (Bird_collide ext e b g) = GAME_OVER
      \<and> effects (Bird_collide ext e b g)
          = effects g @ [Play HitSound, Clear, DrawWithScores GAME_OVER (score g) (highScore g)])
   \<and> (cls e \<noteq> Tube \<longrightarrow>
      Bird_collide ext e b g = g\<lparr>bird := Some (entityCollide ext e b)\<rparr>)
   \<and> (effects (Bird_collide ext e b g) \<noteq> effects g \<longleftrightarrow> cls e = Tube)"
  by (auto simp add: Bird_collide_def Let_def gameOver_simps emit_def)

theorem collide_gameOver_iff_Tube_witness:
  "currentState (Bird_collide example_ext example_tube example_bird example_game) = GAME_OVER
   \<and> effects (Bird_collide example_ext example_tube example_bird example_game)
       = [Play HitSound, Clear, DrawWithScores GAME_OVER 9 3]
   \<and> Bird_collide example_ext example_tile example_bird example_game
       = example_game\<lparr>bird := Some example_bird\<rparr>"
  using collide_gameOver_iff_Tube [of example_tube example_ext example_bird example_game]
        collide_gameOver_iff_Tube [of example_tile example_ext example_bird example_game]
  by (simp add: example_defs)

text \<open>
  C5, as the code has it. For every delta and every prior vertical velocity, after one
  \<^verbatim>\<open>Bird.update(delta)\<close> the y of the bird is at least 0, and the update calls
  \<^verbatim>\<open>gameOver()\<close> itself (the collision engine is not involved) exactly when the resulting
  y + height is at least the height of the scene: then the die sound is played, the GAME_OVER
  overlay is drawn and the state is GAME_OVER; otherwise only the bird has changed. Nothing
  in the update looks at the current state, so this holds in GAME_OVER as in any other state.
\<close>

theorem Bird_update_clamp_floor:
  assumes "scene g = Some sc"
  shows "\<exists>g' b'. Bird_update ext delta b g = Ok g' \<and> bird g' = Some b' \<and> 0 \<le> y b'
     \<and> (scene_height sc \<le> y b' + height b' \<longrightarrow>
           g' = gameOver (emit [Play DieSound] (g\<lparr>bird := Some b'\<rparr>))
           \<and> currentState g' = GAME_OVER
           \<and> effects g' = effects g @ [Play DieSound, Clear,
                                        DrawWithScores GAME_OVER (score g) (highScore g)])
     \<and> (y b' + height b' < scene_height sc \<longrightarrow> g' = g\<lparr>bird := Some b'\<rparr>)"
  using assms
  by (simp add: Bird_update_def Let_def gameOver_simps emit_def PhysicsEngine_update_def)

theorem Bird_update_clamp_floor_witness:
  "scene example_game = Some example_scene
   \<and> (\<exists>g' b'. Bird_update example_ext (1 / 10) example_bird example_game = Ok g'
        \<and> bird g' = Some b' \<and> 0 \<le> y b'
        \<and> (scene_height example_scene \<le> y b' + height b' \<longrightarrow>
              g' = gameOver (emit [Play DieSound] (example_game\<lparr>bird := Some b'\<rparr>))
              \<and> currentState g' = GAME_OVER
              \<and> effects g' = effects example_game @ [Play DieSound, Clear,
                     DrawWithScores GAME_OVER (score example_game) (highScore example_game)])
        \<and> (y b' + height b' < scene_height example_scene \<longrightarrow>
              g' = example_game\<lparr>bird := Some b'\<rparr>))"
proof -
  have h: "scene example_game = Some example_scene"
    by (simp add: example_game_def)
  show ?thesis
    using h Bird_update_clamp_floor [OF h, of example_ext "1 / 10" example_bird] by simp
qed

text \<open>
  C5, as the claim has it, fails: an update of the bird that runs while the game is already
  over, with the bird on the floor, triggers the game over again (die sound, overlay).
\<close>

theorem Bird_update_retriggers_counterexample:
  "currentState fallen_game = GAME_OVER
   \<and> Bird_update example_ext (1 / 10) (example_bird\<lparr>y := 95\<rparr>) fallen_game
       = Ok (fallen_game\<lparr>bird := Some (example_bird\<lparr>y := 96, fallingSpeed := 10\<rparr>),
                         effects := [Play DieSound, Clear, DrawWithScores GAME_OVER 9 3]\<rparr>)"
  by (simp add: fallen_game_def example_defs Bird_update_def PhysicsEngine_update_def Let_def
        gameOver_simps emit_def)

subsection \<open>Score and level\<close>

lemma getTubes_empty_iff:
  "getTubes c c sc = [] \<longleftrightarrow>
     (\<forall>e \<in> set (Scene_getEntities sc). cls e = Tube \<longrightarrow> \<not> (x e \<le> c \<and> c \<le> x e + width e))"
proof -
  have "getTubes c c sc = [] \<longleftrightarrow> set (getTubes c c sc) = {}"
    by simp
  also have "\<dots> \<longleftrightarrow> (\<forall>e \<in> set (Scene_getEntities sc). cls e = Tube \<longrightarrow> \<not> (x e \<le> c \<and> c \<le> x e + width e))"
    unfolding getTubes_def by (auto simp add: filter_empty_conv)
  finally show ?thesis .
qed

text \<open>
  A level-up: \<^verbatim>\<open>_increaseLevel\<close> adds the acceleration to every Tube and Background of the
  scene, and \<^verbatim>\<open>increaseSpeed\<close> then adds it to the driver and to every Tube once more.
\<close>

lemma increaseLevel_Ok:
  assumes "scene g = Some sc" and "tubesDriver g = Some d"
  shows "increaseLevel g =
     Ok (g\<lparr>level := level g + 1,
           tubesDriver := Some (d\<lparr>driver_speed := driver_speed d + levelUpAcceleration (config g)\<rparr>),
           scene := Some (sc\<lparr>entities :=
              map (\<lambda>p. if cls (snd p) = Tube
                         then (fst p, (snd p)\<lparr>speed := speed (snd p)
                                   + levelUpAcceleration (config g) + levelUpAcceleration (config g)\<rparr>)
                         else if cls (snd p) = Background
                         then (fst p, (snd p)\<lparr>speed := speed (snd p) + levelUpAcceleration (config g)\<rparr>)
                         else p) (entities sc)\<rparr>)\<rparr>)"
  using assms by (simp add: increaseLevel_def Let_def TubesDriver_increaseSpeed_def comp_def)

lemma window_iff:
  "(c \<le> tc + th / 2 \<and> tc - th / 2 \<le> c) \<longleftrightarrow> \<bar>tc - c\<bar> \<le> th / 2" for c tc th :: real
  by linarith

lemma updateScore_Nil:
  assumes "bird g = Some b" and "tubesDriver g = Some d" and "scene g = Some sc"
    and "getTubes (x b + width b / 2) (x b + width b / 2) sc = []"
  shows "updateScore delta g = Ok g"
  using assms by (simp add: updateScore_def Let_def)

lemma updateScore_Cons:
  assumes "bird g = Some b" and "tubesDriver g = Some d" and "scene g = Some sc"
    and "getTubes (x b + width b / 2) (x b + width b / 2) sc = t # ts"
  shows "updateScore delta g =
     (if \<bar>x t + width t / 2 - (x b + width b / 2)\<bar>
           \<le> (tubes_speed (config g) + levelUpAcceleration (config g) * of_int (level g)) * delta / 2
      then (if 10 * (level g + 1) \<le> score g + 1
            then increaseLevel (g\<lparr>score := score g + 1, effects := effects g @ [Play PointSound]\<rparr>)
            else Ok (g\<lparr>score := score g + 1, effects := effects g @ [Play PointSound]\<rparr>))
      else Ok g)"
proof -
  define th where
    "th = (tubes_speed (config g) + levelUpAcceleration (config g) * of_int (level g)) * delta"
  define c where "c = x b + width b / 2"
  define tc where "tc = x t + width t / 2"
  have "updateScore delta g =
     (if c \<le> tc + th / 2 \<and> tc - th / 2 \<le> c
      then (if 10 * (level g + 1) \<le> score g + 1
            then increaseLevel (g\<lparr>score := score g + 1, effects := effects g @ [Play PointSound]\<rparr>)
            else Ok (g\<lparr>score := score g + 1, effects := effects g @ [Play PointSound]\<rparr>))
      else Ok g)"
    unfolding th_def c_def tc_def using assms
    by (simp add: updateScore_def Let_def emit_def)
  then show ?thesis
    unfolding window_iff unfolding th_def c_def tc_def .
qed

lemma scoring_facts:
  "bird scoring_game = Some example_bird"
  "tubesDriver scoring_game = Some \<lparr>driver_speed = 100\<rparr>"
  "scene scoring_game = Some scoring_scene"
  "200 = x example_bird + width example_bird / 2"
  "10 = (tubes_speed (config scoring_game)
         + levelUpAcceleration (config scoring_game) * of_int (level scoring_game)) * (1 / 10)"
  "getTubes 200 200 scoring_scene = [example_tube\<lparr>x := 174\<rparr>]"
  "\<bar>x (example_tube\<lparr>x := 174\<rparr>) + width (example_tube\<lparr>x := 174\<rparr>) / 2 - 200\<bar> \<le> 10 / 2"
  by (simp_all add: scoring_game_def scoring_scene_def example_defs getTubes_def
        Scene_getEntities_def)

text \<open>
  C3. One scoring pass, for a game with a bird, a driver and a scene (\<open>c\<close> is the horizontal
  centre of the bird, \<open>th\<close> the threshold (baseSpeed + levelUpAcceleration * level) * delta):
  the pass returns normally; the score grows by 0 or by 1; if no Tube of the scene has a
  horizontal span that contains \<open>c\<close>, nothing changes at all; if the query finds pairs, the
  first of them decides: the score grows by exactly 1 when its centre is within \<open>th / 2\<close> of
  \<open>c\<close>, and nothing changes otherwise.
\<close>

theorem updateScore_at_most_one:
  assumes "bird g = Some b" and "tubesDriver g = Some d" and "scene g = Some sc"
    and "c = x b + width b / 2"
    and "th = (tubes_speed (config g) + levelUpAcceleration (config g) * of_int (level g)) * delta"
  shows "\<exists>g'. updateScore delta g = Ok g'
     \<and> score g \<le> score g' \<and> score g' \<le> score g + 1
     \<and> ((\<forall>e \<in> set (Scene_getEntities sc).
             cls e = Tube \<longrightarrow> \<not> (x e \<le> c \<and> c \<le> x e + width e)) \<longrightarrow> g' = g)
     \<and> (\<forall>t ts. getTubes c c sc = t # ts \<longrightarrow>
            (if \<bar>x t + width t / 2 - c\<bar> \<le> th / 2 then score g' = score g + 1 else g' = g))"
proof (cases "getTubes c c sc")
  case Nil
  then have "updateScore delta g = Ok g"
    using assms(1-4) updateScore_Nil by blast
  then show ?thesis
    using Nil by auto
next
  case (Cons t ts)
  then have ne: "\<not> (\<forall>e \<in> set (Scene_getEntities sc).
             cls e = Tube \<longrightarrow> \<not> (x e \<le> c \<and> c \<le> x e + width e))"
    using getTubes_empty_iff [of c sc] by simp
  have eq: "updateScore delta g =
     (if \<bar>x t + width t / 2 - c\<bar> \<le> th / 2
      then (if 10 * (level g + 1) \<le> score g + 1
            then increaseLevel (g\<lparr>score := score g + 1, effects := effects g @ [Play PointSound]\<rparr>)
            else Ok (g\<lparr>score := score g + 1, effects := effects g @ [Play PointSound]\<rparr>))
      else Ok g)"
    using updateScore_Cons [OF assms(1-3), of t ts delta] Cons unfolding assms(4,5) by blast
  have "\<exists>g'. updateScore delta g = Ok g'
      \<and> (if \<bar>x t + width t / 2 - c\<bar> \<le> th / 2 then score g' = score g + 1 else g' = g)"
  proof (cases "\<bar>x t + width t / 2 - c\<bar> \<le> th / 2")
    case False
    then show ?thesis
      using eq by simp
  next
    case True
    then show ?thesis
      using eq assms(2,3) by (simp add: increaseLevel_Ok)
  qed
  then obtain g' where 1: "updateScore delta g = Ok g'"
    and 2: "if \<bar>x t + width t / 2 - c\<bar> \<le> th / 2 then score g' = score g + 1 else g' = g"
    by blast
  have 3: "score g \<le> score g' \<and> score g' \<le> score g + 1"
    using 2 by (auto split: if_splits)
  show ?thesis
  proof (intro exI[of _ g'] conjI)
    show "updateScore delta g = Ok g'" by fact
    show "score g \<le> score g'" using 3 by simp
    show "score g' \<le> score g + 1" using 3 by simp
    show "(\<forall>e \<in> set (Scene_getEntities sc).
             cls e = Tube \<longrightarrow> \<not> (x e \<le> c \<and> c \<le> x e + width e)) \<longrightarrow> g' = g"
      using ne by blast
    show "\<forall>t ts. getTubes c c sc = t # ts \<longrightarrow>
            (if \<bar>x t + width t / 2 - c\<bar> \<le> th / 2 then score g' = score g + 1 else g' = g)"
      using Cons 2 by simp
  qed
qed

theorem updateScore_at_most_one_witness:
  "bird scoring_game = Some example_bird
   \<and> scene scoring_game = Some scoring_scene
   \<and> getTubes 200 200 scoring_scene = [example_tube\<lparr>x := 174\<rparr>]
   \<and> (\<exists>g'. updateScore (1 / 10) scoring_game = Ok g' \<and> score g' = score scoring_game + 1)"
  using scoring_facts
    updateScore_at_most_one [OF scoring_facts(1) scoring_facts(2) scoring_facts(3)
      scoring_facts(4) scoring_facts(5)]
  by auto

text \<open>What a scoring pass that increments the score does to level, driver and scene.\<close>

lemma updateScore_level_up:
  assumes "bird g = Some b" and "tubesDriver g = Some d" and "scene g = Some sc"
    and "c = x b + width b / 2"
    and "th = (tubes_speed (config g) + levelUpAcceleration (config g) * of_int (level g)) * delta"
    and "getTubes c c sc = t # ts"
    and "\<bar>x t + width t / 2 - c\<bar> \<le> th / 2"
  shows "\<exists>g'. updateScore delta g = Ok g' \<and> score g' = score g + 1
     \<and> (10 * (level g + 1) \<le> score g' \<longrightarrow>
          level g' = level g + 1
          \<and> tubesDriver g' = Some (d\<lparr>driver_speed := driver_speed d + levelUpAcceleration (config g)\<rparr>)
          \<and> scene g' = Some (sc\<lparr>entities :=
               map (\<lambda>p. if cls (snd p) = Tube
                          then (fst p, (snd p)\<lparr>speed := speed (snd p)
                                    + levelUpAcceleration (config g) + levelUpAcceleration (config g)\<rparr>)
                          else if cls (snd p) = Background
                          then (fst p, (snd p)\<lparr>speed := speed (snd p) + levelUpAcceleration (config g)\<rparr>)
                          else p) (entities sc)\<rparr>))
     \<and> (score g' < 10 * (level g + 1) \<longrightarrow>
          level g' = level g \<and> tubesDriver g' = tubesDriver g \<and> scene g' = scene g)"
proof -
  have eq: "updateScore delta g =
     (if 10 * (level g + 1) \<le> score g + 1
      then increaseLevel (g\<lparr>score := score g + 1, effects := effects g @ [Play PointSound]\<rparr>)
      else Ok (g\<lparr>score := score g + 1, effects := effects g @ [Play PointSound]\<rparr>))"
    using updateScore_Cons [OF assms(1-3), of t ts delta] assms(6,7) unfolding assms(4,5) by simp
  show ?thesis
    using eq assms(2,3) by (simp add: increaseLevel_Ok)
qed


subsection \<open>High score\<close>

lemma collisions_bird:
  "bird g \<noteq> None \<Longrightarrow> bird (collisions ext es g) \<noteq> None"
  unfolding collisions_def
  by (induction es arbitrary: g) (auto simp add: Bird_collide_def Let_def gameOver_simps emit_def)

lemma Bird_update_returns:
  assumes "scene g = Some sc"
  shows "\<exists>g' b'. Bird_update ext delta b g = Ok g' \<and> bird g' = Some b'"
  using assms
  by (simp add: Bird_update_def Let_def gameOver_simps emit_def)

lemma Scene_update_returns:
  assumes "scene g = Some sc" and "bird g = Some b"
  shows "\<exists>g'. Scene_update ext delta g = Ok g' \<and> scene g' \<noteq> None \<and> bird g' \<noteq> None
           \<and> tubesDriver g' = tubesDriver g"
proof -
  define es where "es = map (\<lambda>p. (fst p, scrollerUpdate ext delta (snd p))) (entities sc)"
  define g1 where "g1 = g\<lparr>scene := Some (sc\<lparr>entities := es\<rparr>)\<rparr>"
  have s1: "scene g1 = Some (sc\<lparr>entities := es\<rparr>)" by (simp add: g1_def)
  from Bird_update_returns [OF s1, of ext delta b]
  obtain g2 b' where g2: "Bird_update ext delta b g1 = Ok g2" and b2: "bird g2 = Some b'"
    by blast
  have f2: "scene g2 = scene g1 \<and> tubesDriver g2 = tubesDriver g1"
    using Bird_update_frame [OF g2] by simp
  have "Scene_update ext delta g = Ok (collisions ext es g2)"
    using assms g2 [unfolded g1_def es_def]
    by (simp add: Scene_update_def Let_def es_def)
  moreover have "bird (collisions ext es g2) \<noteq> None"
    using b2 by (simp add: collisions_bird)
  ultimately show ?thesis
    using f2 s1 by (simp add: collisions_frame g1_def)
qed

text \<open>An update of a game that has its scene, bird and driver returns.\<close>

lemma update_returns:
  assumes "scene g = Some sc" and "bird g = Some b" and "tubesDriver g = Some d"
  shows "\<exists>g'. update ext delta g = Ok g'"
proof -
  obtain d' es n where u: "tubesDriverUpdate ext d sc (nextId g) = (d', es, n)"
    by (cases "tubesDriverUpdate ext d sc (nextId g)") blast
  define g1 where "g1 = g\<lparr>tubesDriver := Some d', scene := Some (sc\<lparr>entities := es\<rparr>),
                           nextId := n\<rparr>"
  have 1: "TubesDriver_update ext g = Ok g1"
    using assms u by (simp add: TubesDriver_update_def g1_def)
  have p1: "scene g1 \<noteq> None \<and> bird g1 = Some b \<and> tubesDriver g1 \<noteq> None"
    using assms by (simp add: g1_def)
  then obtain sc1 where s1: "scene g1 = Some sc1" by auto
  from Scene_update_returns [OF s1, of b ext delta] p1
  obtain g2 where 2: "Scene_update ext delta g1 = Ok g2"
    and p2: "scene g2 \<noteq> None \<and> bird g2 \<noteq> None \<and> tubesDriver g2 \<noteq> None"
    by auto
  then obtain sc2 b2 d2 where q2: "scene g2 = Some sc2" "bird g2 = Some b2" "tubesDriver g2 = Some d2"
    by auto
  have "\<exists>g3. updateScore delta g2 = Ok g3"
  proof (cases "getTubes (x b2 + width b2 / 2) (x b2 + width b2 / 2) sc2")
    case Nil
    then show ?thesis using updateScore_Nil [OF q2(2) q2(3) q2(1)] by blast
  next
    case (Cons t ts)
    show ?thesis
      unfolding updateScore_Cons [OF q2(2) q2(3) q2(1) Cons]
      using q2 by (simp add: increaseLevel_Ok)
  qed
  then obtain g3 where 3: "updateScore delta g2 = Ok g3" by blast
  show ?thesis
    unfolding update_def using 1 2 3 by (simp add: Let_def)
qed

text \<open>Whenever an update returns, only its last step has written the high score.\<close>

lemma update_highScore:
  assumes "update ext delta g = Ok g'"
  shows "highScore g \<le> highScore g'
     \<and> (highScore g < score g' \<longrightarrow>
          highScore g' = score g' \<and> storage g' = (storage g)(''highScore'' \<mapsto> score g'))
     \<and> (score g' \<le> highScore g \<longrightarrow> highScore g' = highScore g \<and> storage g' = storage g)"
proof -
  from assms obtain g1 g2 g3 where
    1: "TubesDriver_update ext g = Ok g1" and
    2: "Scene_update ext delta g1 = Ok g2" and
    3: "updateScore delta g2 = Ok g3" and
    4: "(if score g3 > highScore g3
         then (let g4 = g3\<lparr>highScore := score g3\<rparr> in Ok (save ''highScore'' (highScore g4) g4))
         else Ok g3) = Ok g'"
    unfolding update_def andThen_Ok by blast
  have hs: "highScore g3 = highScore g" and st: "storage g3 = storage g"
    using TubesDriver_update_frame[OF 1] Scene_update_frame[OF 2] updateScore_frame[OF 3]
    by simp_all
  show ?thesis
    using 4 hs st by (auto simp add: save_def Let_def split: if_splits)
qed

text \<open>
  C7. Every update tick of a game that has its scene, bird and driver returns, and across it
  the in-memory high score does not decrease; on the ticks where the score after scoring
  strictly exceeds the high score, the high score becomes that score and is written to the
  storage under the key highScore in the same update; on all other ticks the high score and
  the storage are untouched.
\<close>

theorem highScore_monotone_persisted:
  assumes "scene g = Some sc" and "bird g = Some b" and "tubesDriver g = Some d"
  shows "\<exists>g'. update ext delta g = Ok g'
     \<and> highScore g \<le> highScore g'
     \<and> (highScore g < score g' \<longrightarrow>
          highScore g' = score g' \<and> storage g' = (storage g)(''highScore'' \<mapsto> score g'))
     \<and> (score g' \<le> highScore g \<longrightarrow> highScore g' = highScore g \<and> storage g' = storage g)"
proof -
  from update_returns [OF assms] obtain g' where "update ext delta g = Ok g'"
    by blast
  then show ?thesis
    using update_highScore by blast
qed

theorem highScore_monotone_persisted_witness:
  "scene example_game = Some example_scene \<and> bird example_game = Some example_bird
   \<and> tubesDriver example_game = Some \<lparr>driver_speed = 100\<rparr>
   \<and> update example_ext (1 / 10) example_game = Ok example_game_after
   \<and> highScore example_game = 3 \<and> score example_game_after = 10
   \<and> highScore example_game_after = 10
   \<and> storage example_game_after = (storage example_game)(''highScore'' \<mapsto> 10)"
proof -
  have p: "scene example_game = Some example_scene" "bird example_game = Some example_bird"
    "tubesDriver example_game = Some \<lparr>driver_speed = 100\<rparr>"
    by (simp_all add: example_game_def)
  have h: "update example_ext (1 / 10) example_game = Ok example_game_after"
    by (simp add: example_game_after_def example_defs update_def TubesDriver_update_def
          Scene_update_def Bird_update_def PhysicsEngine_update_def collisions_def
          updateScore_def getTubes_def Scene_getEntities_def increaseLevel_def
          TubesDriver_increaseSpeed_def save_def emit_def Let_def)
  have s: "highScore example_game = 3" "score example_game_after = 10"
    by (simp_all add: example_game_def example_game_after_def)
  show ?thesis
    using p h s highScore_monotone_persisted [OF p, of example_ext "1 / 10"] by auto
qed

subsection \<open>Background tiles\<close>

lemma scene_upd_same: "scene g = v \<Longrightarrow> g\<lparr>scene := v\<rparr> = g"
  by (cases g) auto

lemma fold_Entity_delete:
  "fold Entity_delete ids g =
     g\<lparr>scene := map_option (\<lambda>sc. sc\<lparr>entities := filter (\<lambda>p. fst p \<notin> set ids) (entities sc)\<rparr>) (scene g)\<rparr>"
proof (induction ids arbitrary: g)
  case Nil
  show ?case
    by (cases "scene g") (simp_all add: scene_upd_same)
next
  case (Cons i ids)
  have "fold Entity_delete (i # ids) g = fold Entity_delete ids (Entity_delete i g)"
    by simp
  also have "\<dots> = (Entity_delete i g)\<lparr>scene := map_option
       (\<lambda>sc. sc\<lparr>entities := filter (\<lambda>p. fst p \<notin> set ids) (entities sc)\<rparr>)
       (scene (Entity_delete i g))\<rparr>"
    by (rule Cons)
  also have "\<dots> = g\<lparr>scene := map_option
       (\<lambda>sc. sc\<lparr>entities := filter (\<lambda>p. fst p \<notin> set (i # ids)) (entities sc)\<rparr>) (scene g)\<rparr>"
    by (cases "scene g") (simp_all add: Entity_delete_def conj_commute)
  finally show ?case .
qed

lemma loop_Some:
  assumes "scene g = Some sc" and "0 < scene_height sc * r"
    and "x lb = initialX lb" and "width lb = scene_height sc * r"
    and "scene_width sc - initialX lb \<le> real m * (scene_height sc * r)"
  shows "\<exists>tiles. generateBackgrounds_loop r (Some lb) g =
        Some (Ok (g\<lparr>scene := Some (sc\<lparr>entities := entities sc
                                      @ zip [nextId g..<nextId g + length tiles] tiles\<rparr>),
                    backgrounds := backgrounds g @ [nextId g..<nextId g + length tiles],
                    nextId := nextId g + length tiles\<rparr>))
     \<and> (\<forall>i<length tiles. tiles ! i =
           \<lparr>cls = Background, x = initialX lb + real (Suc i) * (scene_height sc * r), y = 0,
            width = scene_height sc * r, height = scene_height sc,
            speed = background_speed (config g),
            initialX = initialX lb + real (Suc i) * (scene_height sc * r)\<rparr>)
     \<and> scene_width sc \<le> initialX lb + real (length tiles) * (scene_height sc * r)
     \<and> (\<forall>j<length tiles. initialX lb + real j * (scene_height sc * r) < scene_width sc)"
  using assms
proof (induction m arbitrary: lb g sc)
  case 0
  then have stop: "\<not> initialX lb < scene_width sc"
    by simp
  have "generateBackgrounds_loop r (Some lb) g = Some (Ok g)"
    using 0(1) stop by (subst generateBackgrounds_loop.simps) simp
  then show ?case
    using 0(1) stop by (intro exI[of _ "[]"]) (simp add: scene_upd_same)
next
  case (Suc m)
  show ?case
  proof (cases "initialX lb < scene_width sc")
    case False
    have "generateBackgrounds_loop r (Some lb) g = Some (Ok g)"
      using Suc.prems(1) False by (subst generateBackgrounds_loop.simps) simp
    then show ?thesis
      using Suc.prems(1) False by (intro exI[of _ "[]"]) (simp add: scene_upd_same)
  next
    case True
    define tw where "tw = scene_height sc * r"
    define t0 where "t0 = \<lparr>cls = Background, x = initialX lb + tw, y = 0,
            width = tw, height = scene_height sc,
            speed = background_speed (config g), initialX = initialX lb + tw\<rparr>"
    define sc1 where "sc1 = sc\<lparr>entities := entities sc @ [(nextId g, t0)]\<rparr>"
    define g1 where "g1 = g\<lparr>scene := Some sc1, nextId := Suc (nextId g),
                            backgrounds := backgrounds g @ [nextId g]\<rparr>"
    have unfold: "generateBackgrounds_loop r (Some lb) g = generateBackgrounds_loop r (Some t0) g1"
      using Suc.prems(1,3,4) True
      by (subst generateBackgrounds_loop.simps)
         (simp add: new_Background_def Let_def g1_def sc1_def t0_def tw_def)
    have p1: "scene g1 = Some sc1" by (simp add: g1_def)
    have p2: "0 < scene_height sc1 * r" using Suc.prems(2) by (simp add: sc1_def)
    have p3: "x t0 = initialX t0" by (simp add: t0_def)
    have p4: "width t0 = scene_height sc1 * r" by (simp add: t0_def sc1_def tw_def)
    have p5: "scene_width sc1 - initialX t0 \<le> real m * (scene_height sc1 * r)"
      using Suc.prems(5) by (simp add: t0_def sc1_def tw_def algebra_simps)
    from Suc.IH [OF p1 p2 p3 p4 p5] obtain tiles where
      r1: "generateBackgrounds_loop r (Some t0) g1 =
        Some (Ok (g1\<lparr>scene := Some (sc1\<lparr>entities := entities sc1
                                      @ zip [nextId g1..<nextId g1 + length tiles] tiles\<rparr>),
                    backgrounds := backgrounds g1 @ [nextId g1..<nextId g1 + length tiles],
                    nextId := nextId g1 + length tiles\<rparr>))"
      and r2: "\<forall>i<length tiles. tiles ! i =
           \<lparr>cls = Background, x = initialX t0 + real (Suc i) * (scene_height sc1 * r), y = 0,
            width = scene_height sc1 * r, height = scene_height sc1,
            speed = background_speed (config g1),
            initialX = initialX t0 + real (Suc i) * (scene_height sc1 * r)\<rparr>"
      and r3: "scene_width sc1 \<le> initialX t0 + real (length tiles) * (scene_height sc1 * r)"
      and r4: "\<forall>j<length tiles. initialX t0 + real j * (scene_height sc1 * r) < scene_width sc1"
      by blast
    have upt: "[nextId g..<nextId g + length (t0 # tiles)]
         = nextId g # [Suc (nextId g)..<Suc (nextId g) + length tiles]"
      by (subst upt_rec) simp
    show ?thesis
    proof (intro exI[of _ "t0 # tiles"] conjI)
      show "generateBackgrounds_loop r (Some lb) g =
        Some (Ok (g\<lparr>scene := Some (sc\<lparr>entities := entities sc
                          @ zip [nextId g..<nextId g + length (t0 # tiles)] (t0 # tiles)\<rparr>),
                    backgrounds := backgrounds g @ [nextId g..<nextId g + length (t0 # tiles)],
                    nextId := nextId g + length (t0 # tiles)\<rparr>))"
        unfolding unfold r1 upt by (simp add: g1_def sc1_def)
      show "\<forall>i<length (t0 # tiles). (t0 # tiles) ! i =
           \<lparr>cls = Background, x = initialX lb + real (Suc i) * (scene_height sc * r), y = 0,
            width = scene_height sc * r, height = scene_height sc,
            speed = background_speed (config g),
            initialX = initialX lb + real (Suc i) * (scene_height sc * r)\<rparr>"
      proof (intro allI impI)
        fix i assume "i < length (t0 # tiles)"
        then show "(t0 # tiles) ! i =
           \<lparr>cls = Background, x = initialX lb + real (Suc i) * (scene_height sc * r), y = 0,
            width = scene_height sc * r, height = scene_height sc,
            speed = background_speed (config g),
            initialX = initialX lb + real (Suc i) * (scene_height sc * r)\<rparr>"
          using r2 by (cases i) (simp_all add: t0_def tw_def sc1_def g1_def algebra_simps)
      qed
      show "scene_width sc \<le> initialX lb + real (length (t0 # tiles)) * (scene_height sc * r)"
        using r3 by (simp add: t0_def tw_def sc1_def algebra_simps)
      show "\<forall>j<length (t0 # tiles). initialX lb + real j * (scene_height sc * r) < scene_width sc"
      proof (intro allI impI)
        fix j assume "j < length (t0 # tiles)"
        then show "initialX lb + real j * (scene_height sc * r) < scene_width sc"
          using r4 True by (cases j) (simp_all add: t0_def tw_def sc1_def algebra_simps)
      qed
    qed
  qed
qed

text \<open>
  C9. For a game with a scene and a positive tile width (the height of the scene times the
  configured aspect ratio of the background), \<^verbatim>\<open>_generateBackgrounds\<close> returns: it deletes
  the tiles it knew from the scene and adds at least one new tile; the new tiles all have the
  tile width; the first starts at x = 0, each further one starts exactly where the one before
  it ends, and every point of [0, scene width] lies on one of them.
\<close>

theorem generateBackgrounds_contiguous_cover:
  assumes "scene g = Some sc"
    and "0 < scene_height sc * (background_width (config g) / background_height (config g))"
  shows "\<exists>tiles. tiles \<noteq> []
     \<and> generateBackgrounds g =
         Ok (g\<lparr>scene := Some (sc\<lparr>entities :=
                    filter (\<lambda>p. fst p \<notin> set (backgrounds g)) (entities sc)
                    @ zip [nextId g..<nextId g + length tiles] tiles\<rparr>),
               backgrounds := backgrounds g @ [nextId g..<nextId g + length tiles],
               nextId := nextId g + length tiles\<rparr>)
     \<and> (\<forall>t \<in> set tiles. cls t = Background \<and> y t = 0 \<and> height t = scene_height sc
            \<and> width t = scene_height sc * (background_width (config g) / background_height (config g)))
     \<and> x (hd tiles) = 0
     \<and> (\<forall>i. Suc i < length tiles \<longrightarrow> x (tiles ! Suc i) = x (tiles ! i) + width (tiles ! i))
     \<and> (\<forall>p. 0 \<le> p \<and> p \<le> scene_width sc \<longrightarrow> (\<exists>t \<in> set tiles. x t \<le> p \<and> p \<le> x t + width t))"
proof -
  define r where "r = background_width (config g) / background_height (config g)"
  define tw where "tw = scene_height sc * r"
  have tw: "0 < tw" using assms(2) by (simp add: tw_def r_def)
  define sc0 where "sc0 = sc\<lparr>entities := filter (\<lambda>p. fst p \<notin> set (backgrounds g)) (entities sc)\<rparr>"
  define g0 where "g0 = g\<lparr>scene := Some sc0\<rparr>"
  define t0 where "t0 = \<lparr>cls = Background, x = 0, y = 0, width = tw, height = scene_height sc,
            speed = background_speed (config g), initialX = 0\<rparr>"
  define sc1 where "sc1 = sc0\<lparr>entities := entities sc0 @ [(nextId g, t0)]\<rparr>"
  define g1 where "g1 = g0\<lparr>scene := Some sc1, nextId := Suc (nextId g),
                           backgrounds := backgrounds g @ [nextId g]\<rparr>"
  define m where "m = nat \<lceil>scene_width sc / tw\<rceil>"
  have del: "fold Entity_delete (backgrounds g) g = g0"
    using assms(1) by (simp add: fold_Entity_delete g0_def sc0_def)
  have first: "generateBackgrounds_loop r None g0 = generateBackgrounds_loop r (Some t0) g1"
    by (subst generateBackgrounds_loop.simps)
       (simp add: new_Background_def Let_def g0_def g1_def sc1_def sc0_def t0_def tw_def)
  have p1: "scene g1 = Some sc1" by (simp add: g1_def)
  have p2: "0 < scene_height sc1 * r" using tw by (simp add: sc1_def sc0_def tw_def)
  have p3: "x t0 = initialX t0" by (simp add: t0_def)
  have p4: "width t0 = scene_height sc1 * r" by (simp add: t0_def sc1_def sc0_def tw_def)
  have "scene_width sc / tw \<le> real m"
    unfolding m_def by linarith
  then have "scene_width sc \<le> real m * tw"
    using tw by (simp add: pos_divide_le_eq)
  then have p5: "scene_width sc1 - initialX t0 \<le> real m * (scene_height sc1 * r)"
    by (simp add: sc1_def sc0_def t0_def tw_def)
  from loop_Some [OF p1 p2 p3 p4 p5] obtain tiles where
    r1: "generateBackgrounds_loop r (Some t0) g1 =
        Some (Ok (g1\<lparr>scene := Some (sc1\<lparr>entities := entities sc1
                                      @ zip [nextId g1..<nextId g1 + length tiles] tiles\<rparr>),
                    backgrounds := backgrounds g1 @ [nextId g1..<nextId g1 + length tiles],
                    nextId := nextId g1 + length tiles\<rparr>))"
    and r2: "\<forall>i<length tiles. tiles ! i =
           \<lparr>cls = Background, x = initialX t0 + real (Suc i) * (scene_height sc1 * r), y = 0,
            width = scene_height sc1 * r, height = scene_height sc1,
            speed = background_speed (config g1),
            initialX = initialX t0 + real (Suc i) * (scene_height sc1 * r)\<rparr>"
    and r3: "scene_width sc1 \<le> initialX t0 + real (length tiles) * (scene_height sc1 * r)"
    by blast
  have nth: "(t0 # tiles) ! i =
           \<lparr>cls = Background, x = real i * tw, y = 0, width = tw, height = scene_height sc,
            speed = background_speed (config g), initialX = real i * tw\<rparr>"
    if "i < length (t0 # tiles)" for i
    using that r2 by (cases i) (simp_all add: t0_def tw_def sc1_def sc0_def g1_def g0_def)
  have last: "scene_width sc \<le> real (length tiles) * tw"
    using r3 by (simp add: t0_def tw_def sc1_def sc0_def)
  have upt: "[nextId g..<nextId g + length (t0 # tiles)]
       = nextId g # [Suc (nextId g)..<Suc (nextId g) + length tiles]"
    by (subst upt_rec) simp
  show ?thesis
  proof (intro exI[of _ "t0 # tiles"] conjI)
    show "t0 # tiles \<noteq> []" by simp
    show "generateBackgrounds g =
         Ok (g\<lparr>scene := Some (sc\<lparr>entities :=
                    filter (\<lambda>p. fst p \<notin> set (backgrounds g)) (entities sc)
                    @ zip [nextId g..<nextId g + length (t0 # tiles)] (t0 # tiles)\<rparr>),
               backgrounds := backgrounds g @ [nextId g..<nextId g + length (t0 # tiles)],
               nextId := nextId g + length (t0 # tiles)\<rparr>)"
      unfolding generateBackgrounds_def Let_def del upt
      using first r1 by (simp add: g0_def g1_def sc1_def sc0_def r_def)
    show "\<forall>t \<in> set (t0 # tiles). cls t = Background \<and> y t = 0 \<and> height t = scene_height sc
            \<and> width t = scene_height sc * (background_width (config g) / background_height (config g))"
    proof
      fix t assume "t \<in> set (t0 # tiles)"
      then obtain i where "i < length (t0 # tiles)" and "t = (t0 # tiles) ! i"
        by (metis in_set_conv_nth)
      then show "cls t = Background \<and> y t = 0 \<and> height t = scene_height sc
            \<and> width t = scene_height sc * (background_width (config g) / background_height (config g))"
        using nth [of i] by (simp add: tw_def r_def)
    qed
    show "x (hd (t0 # tiles)) = 0" by (simp add: t0_def)
    show "\<forall>i. Suc i < length (t0 # tiles) \<longrightarrow>
            x ((t0 # tiles) ! Suc i) = x ((t0 # tiles) ! i) + width ((t0 # tiles) ! i)"
    proof (intro allI impI)
      fix i assume a: "Suc i < length (t0 # tiles)"
      then have b: "i < length (t0 # tiles)" by simp
      show "x ((t0 # tiles) ! Suc i) = x ((t0 # tiles) ! i) + width ((t0 # tiles) ! i)"
        unfolding nth [OF a] nth [OF b] by (simp add: algebra_simps)
    qed
    show "\<forall>p. 0 \<le> p \<and> p \<le> scene_width sc \<longrightarrow>
            (\<exists>t \<in> set (t0 # tiles). x t \<le> p \<and> p \<le> x t + width t)"
    proof (intro allI impI)
      fix p assume p: "0 \<le> p \<and> p \<le> scene_width sc"
      define i where "i = nat \<lfloor>p / tw\<rfloor>"
      have q: "0 \<le> p / tw" using p tw by simp
      then have lo: "real i \<le> p / tw" and hi: "p / tw < real i + 1"
        unfolding i_def by linarith+
      have lo': "real i * tw \<le> p" using lo tw by (simp add: pos_le_divide_eq)
      have hi': "p < (real i + 1) * tw" using hi tw by (simp add: pos_divide_less_eq)
      have "real i * tw \<le> real (length tiles) * tw"
        using lo' p last by linarith
      then have "i \<le> length tiles"
        using tw by simp
      then have il: "i < length (t0 # tiles)" by simp
      have "x ((t0 # tiles) ! i) \<le> p \<and> p \<le> x ((t0 # tiles) ! i) + width ((t0 # tiles) ! i)"
        unfolding nth [OF il] using lo' hi' by (simp add: algebra_simps)
      moreover have "(t0 # tiles) ! i \<in> set (t0 # tiles)"
        using il by (rule nth_mem)
      ultimately show "\<exists>t \<in> set (t0 # tiles). x t \<le> p \<and> p \<le> x t + width t"
        by blast
    qed
  qed
qed

theorem generateBackgrounds_contiguous_cover_witness:
  "scene example_game = Some example_scene
   \<and> 0 < scene_height example_scene
          * (background_width (config example_game) / background_height (config example_game))
   \<and> (\<exists>tiles. tiles \<noteq> []
     \<and> generateBackgrounds example_game =
         Ok (example_game\<lparr>scene := Some (example_scene\<lparr>entities :=
                    filter (\<lambda>p. fst p \<notin> set (backgrounds example_game)) (entities example_scene)
                    @ zip [nextId example_game..<nextId example_game + length tiles] tiles\<rparr>),
               backgrounds := backgrounds example_game
                    @ [nextId example_game..<nextId example_game + length tiles],
               nextId := nextId example_game + length tiles\<rparr>)
     \<and> x (hd tiles) = 0
     \<and> (\<forall>i. Suc i < length tiles \<longrightarrow> x (tiles ! Suc i) = x (tiles ! i) + width (tiles ! i))
     \<and> (\<forall>p. 0 \<le> p \<and> p \<le> scene_width example_scene \<longrightarrow>
            (\<exists>t \<in> set tiles. x t \<le> p \<and> p \<le> x t + width t)))"
proof -
  have h1: "scene example_game = Some example_scene"
    by (simp add: example_game_def)
  have h2: "0 < scene_height example_scene
          * (background_width (config example_game) / background_height (config example_game))"
    by (simp add: example_game_def example_scene_def example_config_def)
  show ?thesis
    using h1 h2 generateBackgrounds_contiguous_cover [OF h1 h2] by blast
qed

subsection \<open>Reset, start and the action table\<close>

lemmas game_defs = handleAction_def actionByStateMap_def start_def reset_def createEntities_def
  configureScene_def resize_def generateBackgrounds_def new_Background_def Entity_delete_def
  Scene_resize_def changeState_def loop_def draw_def update_def save_def updateScore_def
  increaseLevel_def TubesDriver_increaseSpeed_def Scene_update_def collisions_def
  TubesDriver_update_def getTubes_def Scene_getEntities_def Bird_update_def Bird_collide_def
  Bird_flap_def PhysicsEngine_update_def gameOver_def enterState_def emit_def progress_def
  Let_def

lemma reset_initial: "reset example_ext 100 100 0 initial_game = Ok idle_game"
  by (simp add: game_defs generateBackgrounds_loop.simps initial_game_def idle_game_def
        example_config_def example_ext_def)

lemma generateBackgrounds_loop_frame:
  assumes inv: "\<And>g s n b. f (g\<lparr>scene := s, nextId := n, backgrounds := b\<rparr>) = f g"
    and run: "generateBackgrounds_loop r lb g = Some res"
  shows "\<forall>g'. res = Ok g' \<longrightarrow> f g' = f g"
proof (rule generateBackgrounds_loop.raw_induct
         [where P = "\<lambda>r lb g res. \<forall>g'. res = Ok g' \<longrightarrow> f g' = f g", OF _ run], goal_cases)
  case (1 loop r lb g res)
  show ?case
  proof (cases "scene g")
    case None
    then show ?thesis using 1(2) by auto
  next
    case (Some sc)
    show ?thesis
    proof (cases "case lb of None \<Rightarrow> True | Some l \<Rightarrow> initialX l < scene_width sc")
      case False
      then show ?thesis using 1(2) Some by auto
    next
      case True
      obtain bg g1 where nb: "new_Background (case lb of None \<Rightarrow> 0 | Some l \<Rightarrow> x l + width l) 0
           (scene_height sc * r) (scene_height sc) (background_speed (config g)) sc g = (bg, g1)"
        by (cases "new_Background (case lb of None \<Rightarrow> 0 | Some l \<Rightarrow> x l + width l) 0
           (scene_height sc * r) (scene_height sc) (background_speed (config g)) sc g") blast
      have rec: "loop r (Some (snd bg)) (g1\<lparr>backgrounds := backgrounds g1 @ [fst bg]\<rparr>) = Some res"
        using 1(2) Some True nb by (simp add: Let_def)
      have g1: "g1 = g\<lparr>scene := Some (sc\<lparr>entities := entities sc @ [bg]\<rparr>), nextId := Suc (nextId g)\<rparr>"
        using nb by (auto simp add: new_Background_def Let_def)
      have "f (g1\<lparr>backgrounds := backgrounds g1 @ [fst bg]\<rparr>) = f g"
        unfolding g1 using inv [where g = g and s = "Some (sc\<lparr>entities := entities sc @ [bg]\<rparr>)"
            and n = "Suc (nextId g)" and b = "backgrounds g @ [fst bg]"] by simp
      then show ?thesis
        using 1(1) [OF rec] by simp
    qed
  qed
qed

lemma generateBackgrounds_frame:
  assumes inv: "\<And>g s n b. f (g\<lparr>scene := s, nextId := n, backgrounds := b\<rparr>) = f g"
    and run: "generateBackgrounds g = Ok g'"
  shows "f g' = f g"
proof -
  define g0 where "g0 = fold Entity_delete (backgrounds g) g"
  have g0: "g0 = g\<lparr>scene := map_option (\<lambda>sc. sc\<lparr>entities :=
               filter (\<lambda>p. fst p \<notin> set (backgrounds g)) (entities sc)\<rparr>) (scene g)\<rparr>"
    unfolding g0_def by (rule fold_Entity_delete)
  have "f g0 = f g"
    unfolding g0 using inv [where g = g and n = "nextId g" and b = "backgrounds g"] by simp
  moreover from run have "generateBackgrounds_loop
        (background_width (config g0) / background_height (config g0)) None g0 = Some (Ok g')"
    unfolding generateBackgrounds_def Let_def g0_def [symmetric]
    by (auto split: option.splits)
  from generateBackgrounds_loop_frame [of f, OF inv this] have "f g' = f g0"
    by simp
  ultimately show ?thesis by simp
qed

text \<open>The fields of the game that generating backgrounds cannot touch.\<close>

lemma generateBackgrounds_fields:
  assumes "generateBackgrounds g = Ok g'"
  shows "currentState g' = currentState g" "score g' = score g" "level g' = level g"
    "highScore g' = highScore g" "bird g' = bird g" "config g' = config g"
  using generateBackgrounds_frame [of currentState, OF _ assms]
        generateBackgrounds_frame [of score, OF _ assms]
        generateBackgrounds_frame [of level, OF _ assms]
        generateBackgrounds_frame [of highScore, OF _ assms]
        generateBackgrounds_frame [of bird, OF _ assms]
        generateBackgrounds_frame [of config, OF _ assms]
  by simp_all

lemma resize_keeps_progress:
  assumes "currentState g \<noteq> PLAYING" and "resize ext w h now g = Ok g'"
  shows "progress g' = progress g"
proof -
  from assms(2) obtain sc where sc: "scene g = Some sc"
    by (auto simp add: resize_def Let_def split: option.splits)
  define g2 where "g2 = emit [ResizeSurface w h] (g\<lparr>canvas := (w, h), scene := Some (Scene_resize w h sc)\<rparr>)"
  from assms(2) sc obtain g3 where g3: "generateBackgrounds g2 = Ok g3"
    and g': "changeState ext now (currentState g3) g3 = Ok g'"
    unfolding resize_def Let_def g2_def by (auto simp add: andThen_Ok)
  have f: "currentState g3 = currentState g \<and> score g3 = score g \<and> level g3 = level g
     \<and> highScore g3 = highScore g \<and> bird g3 = bird g"
    using generateBackgrounds_fields [OF g3] by (simp add: g2_def emit_def)
  show ?thesis
    using g' f assms(1)
    by (cases "currentState g") (auto simp add: changeState_def enterState_def emit_def progress_def)
qed

lemma reset_post:
  assumes "reset ext w h now g = Ok g1"
  shows "currentState g1 = IDLE \<and> score g1 = 0 \<and> level g1 = 0 \<and> highScore g1 = highScore g"
proof -
  define ga where "ga = configureScene ((enterState IDLE g)\<lparr>score := 0, level := 0\<rparr>)"
  from assms obtain gb where gb: "resize ext w h now ga = Ok gb"
    and gc: "createEntities gb = Ok g1"
    unfolding reset_def ga_def by (auto simp add: andThen_Ok changeState_def)
  have a: "currentState ga = IDLE" "score ga = 0" "level ga = 0" "highScore ga = highScore g"
    by (simp_all add: ga_def configureScene_def enterState_def emit_def)
  have "progress gb = progress ga"
    using resize_keeps_progress [OF _ gb] a(1) by simp
  then have b: "currentState gb = IDLE \<and> score gb = 0 \<and> level gb = 0 \<and> highScore gb = highScore g"
    using a by (simp add: progress_def)
  from gc obtain gd where gd: "generateBackgrounds (gb\<lparr>backgrounds := []\<rparr>) = Ok gd"
    and g1: "currentState g1 = currentState gd \<and> score g1 = score gd \<and> level g1 = level gd
       \<and> highScore g1 = highScore gd"
    unfolding createEntities_def
    by (auto simp add: andThen_Ok Let_def split: option.splits)
  have c: "currentState gd = IDLE \<and> score gd = 0 \<and> level gd = 0 \<and> highScore gd = highScore g"
    using generateBackgrounds_fields [OF gd] b by simp
  show ?thesis
    using g1 c by simp
qed

text \<open>
  C1. The table of \<^verbatim>\<open>_handleAction\<close> has an entry for every state. In LOADING the action
  does nothing; in IDLE and in GAME_OVER it is \<^verbatim>\<open>start()\<close>; in PLAYING it sets the falling
  speed of the bird to \<open>- flapSpeed\<close> (the upward impulse) and plays the flap sound, and
  changes nothing else. \<^verbatim>\<open>start()\<close> resets first, which leaves the state IDLE with score 0 and
  level 0, and then enters PLAYING: it plays the swooshing sound, stores the time, clears the
  surface, sets the state to PLAYING and runs the loop.
\<close>

theorem handleAction_dispatch:
  "(\<forall>s. \<exists>action. map_of (actionByStateMap ext w h t0 t1) s = Some action)
   \<and> (currentState g = LOADING \<longrightarrow> handleAction ext w h t0 t1 g = Ok g)
   \<and> (currentState g = IDLE \<or> currentState g = GAME_OVER \<longrightarrow>
        handleAction ext w h t0 t1 g = start ext w h t0 t1 g)
   \<and> (currentState g = PLAYING \<longrightarrow>
        (\<forall>b. bird g = Some b \<longrightarrow>
           handleAction ext w h t0 t1 g
             = Ok (g\<lparr>bird := Some (b\<lparr>fallingSpeed := - flapSpeed b\<rparr>),
                     effects := effects g @ [Play FlapSound]\<rparr>)))
   \<and> (\<forall>g1. reset ext w h t0 g = Ok g1 \<longrightarrow>
         currentState g1 = IDLE \<and> score g1 = 0 \<and> level g1 = 0
         \<and> start ext w h t0 t1 g
             = loop ext t1 (g1\<lparr>lastUpdate := Some t0,
                               effects := effects g1 @ [Play SwooshingSound, Clear],
                               currentState := PLAYING\<rparr>))"
proof (intro conjI allI impI)
  fix s show "\<exists>action. map_of (actionByStateMap ext w h t0 t1) s = Some action"
    by (cases s) (simp_all add: actionByStateMap_def)
next
  assume "currentState g = LOADING"
  then show "handleAction ext w h t0 t1 g = Ok g"
    by (simp add: handleAction_def actionByStateMap_def)
next
  assume "currentState g = IDLE \<or> currentState g = GAME_OVER"
  then show "handleAction ext w h t0 t1 g = start ext w h t0 t1 g"
    by (auto simp add: handleAction_def actionByStateMap_def)
next
  fix b assume "currentState g = PLAYING" and "bird g = Some b"
  then show "handleAction ext w h t0 t1 g
             = Ok (g\<lparr>bird := Some (b\<lparr>fallingSpeed := - flapSpeed b\<rparr>),
                     effects := effects g @ [Play FlapSound]\<rparr>)"
    by (simp add: handleAction_def actionByStateMap_def Bird_flap_def emit_def)
next
  fix g1 assume r: "reset ext w h t0 g = Ok g1"
  from reset_post [OF r] show "currentState g1 = IDLE" by simp
  from reset_post [OF r] show "score g1 = 0" by simp
  from reset_post [OF r] show "level g1 = 0" by simp
  show "start ext w h t0 t1 g
             = loop ext t1 (g1\<lparr>lastUpdate := Some t0,
                               effects := effects g1 @ [Play SwooshingSound, Clear],
                               currentState := PLAYING\<rparr>)"
    by (simp add: start_def r changeState_def enterState_def emit_def)
qed

theorem handleAction_dispatch_witness:
  "handleAction example_ext 100 100 0 0 initial_game = Ok initial_game
   \<and> handleAction example_ext 100 100 0 0 idle_game = start example_ext 100 100 0 0 idle_game
   \<and> handleAction example_ext 100 100 0 0 fallen_game = start example_ext 100 100 0 0 fallen_game
   \<and> handleAction example_ext 100 100 0 0 example_game
       = Ok (example_game\<lparr>bird := Some (example_bird\<lparr>fallingSpeed := - 50\<rparr>),
                           effects := [Play FlapSound]\<rparr>)
   \<and> reset example_ext 100 100 0 initial_game = Ok idle_game
   \<and> start example_ext 100 100 0 0 initial_game
       = loop example_ext 0 (idle_game\<lparr>lastUpdate := Some 0,
                               effects := effects idle_game @ [Play SwooshingSound, Clear],
                               currentState := PLAYING\<rparr>)"
  using handleAction_dispatch [where g = initial_game and ext = example_ext and w = 100
          and h = 100 and ?t0.0 = 0 and ?t1.0 = 0]
        handleAction_dispatch [where g = idle_game and ext = example_ext and w = 100
          and h = 100 and ?t0.0 = 0 and ?t1.0 = 0]
        handleAction_dispatch [where g = fallen_game and ext = example_ext and w = 100
          and h = 100 and ?t0.0 = 0 and ?t1.0 = 0]
        handleAction_dispatch [where g = example_game and ext = example_ext and w = 100
          and h = 100 and ?t0.0 = 0 and ?t1.0 = 0]
        reset_initial
  by (simp add: initial_game_def idle_game_def fallen_game_def example_game_def
        example_bird_def)

subsection \<open>The loop\<close>

text \<open>
  What one run of the loop does: delta is (now - lastUpdate) / 1000; after the update, a state
  that is still PLAYING has the time stored and one more run requested; any other state has
  neither, and the run was the update alone (nothing was drawn).
\<close>

lemma update_frame:
  assumes "update ext delta g = Ok g'"
  shows "pending g' = pending g \<and> lastUpdate g' = lastUpdate g"
proof -
  from assms obtain g1 g2 g3 where
    1: "TubesDriver_update ext g = Ok g1" and
    2: "Scene_update ext delta g1 = Ok g2" and
    3: "updateScore delta g2 = Ok g3" and
    4: "(if score g3 > highScore g3
         then (let g4 = g3\<lparr>highScore := score g3\<rparr> in Ok (save ''highScore'' (highScore g4) g4))
         else Ok g3) = Ok g'"
    unfolding update_def andThen_Ok by blast
  have "pending g3 = pending g \<and> lastUpdate g3 = lastUpdate g"
    using TubesDriver_update_frame[OF 1] Scene_update_frame[OF 2] updateScore_frame[OF 3]
    by simp
  then show ?thesis
    using 4 by (auto simp add: save_def Let_def split: if_splits)
qed

lemma loop_contract:
  assumes "loop ext now g = Ok g'"
  shows "(currentState g' = PLAYING \<longrightarrow>
            lastUpdate g' = Some now \<and> pending g' = Suc (pending g))
       \<and> (currentState g' \<noteq> PLAYING \<longrightarrow>
            lastUpdate g' = lastUpdate g \<and> pending g' = pending g
            \<and> update ext ((now - (case lastUpdate g of None \<Rightarrow> 0 | Some l \<Rightarrow> l)) / 1000) g = Ok g')"
proof -
  define delta where "delta = (now - (case lastUpdate g of None \<Rightarrow> 0 | Some l \<Rightarrow> l)) / 1000"
  from assms obtain g1 where 1: "update ext delta g = Ok g1"
    and 2: "(if currentState g1 = PLAYING
           then andThen (draw g1) (\<lambda>g2. Ok (g2\<lparr>lastUpdate := Some now, pending := Suc (pending g2)\<rparr>))
           else Ok g1) = Ok g'"
    unfolding loop_def Let_def delta_def andThen_Ok by blast
  show ?thesis
    using 2 update_frame [OF 1] 1
    by (auto simp add: draw_def emit_def andThen_Ok delta_def split: if_splits option.splits)
qed

text \<open>
  No event that ends in a state other than PLAYING requests a frame: the number of pending
  runs of the loop does not grow.
\<close>

lemma generateBackgrounds_pending:
  assumes "generateBackgrounds g = Ok g'"
  shows "pending g' = pending g"
  using generateBackgrounds_frame [of pending, OF _ assms] by simp

lemma resize_keeps_pending:
  assumes "currentState g \<noteq> PLAYING" and "resize ext w h now g = Ok g'"
  shows "pending g' = pending g"
proof -
  from assms(2) obtain sc where sc: "scene g = Some sc"
    by (auto simp add: resize_def Let_def split: option.splits)
  define g2 where "g2 = emit [ResizeSurface w h] (g\<lparr>canvas := (w, h), scene := Some (Scene_resize w h sc)\<rparr>)"
  from assms(2) sc obtain g3 where g3: "generateBackgrounds g2 = Ok g3"
    and g': "changeState ext now (currentState g3) g3 = Ok g'"
    unfolding resize_def Let_def g2_def by (auto simp add: andThen_Ok)
  have f: "currentState g3 = currentState g \<and> pending g3 = pending g"
    using generateBackgrounds_fields(1) [OF g3] generateBackgrounds_pending [OF g3]
    by (simp add: g2_def emit_def)
  show ?thesis
    using g' f assms(1)
    by (cases "currentState g") (auto simp add: changeState_def enterState_def emit_def)
qed

lemma reset_pending:
  assumes "reset ext w h now g = Ok g1"
  shows "pending g1 = pending g"
proof -
  define ga where "ga = configureScene ((enterState IDLE g)\<lparr>score := 0, level := 0\<rparr>)"
  from assms obtain gb where gb: "resize ext w h now ga = Ok gb"
    and gc: "createEntities gb = Ok g1"
    unfolding reset_def ga_def by (auto simp add: andThen_Ok changeState_def)
  have a: "currentState ga = IDLE" "pending ga = pending g"
    by (simp_all add: ga_def configureScene_def enterState_def emit_def)
  have b: "pending gb = pending g"
    using resize_keeps_pending [OF _ gb] a by simp
  from gc obtain gd where gd: "generateBackgrounds (gb\<lparr>backgrounds := []\<rparr>) = Ok gd"
    and g1: "pending g1 = pending gd"
    unfolding createEntities_def
    by (auto simp add: andThen_Ok Let_def split: option.splits)
  show ?thesis
    using generateBackgrounds_pending [OF gd] b g1 by simp
qed

lemma changeState_pending:
  assumes "changeState ext now st g = Ok g'" and "currentState g' \<noteq> PLAYING"
  shows "pending g' = pending g"
proof (cases st)
  case PLAYING
  then have "loop ext now (enterState PLAYING g) = Ok g'"
    using assms(1) by (simp add: changeState_def)
  from loop_contract [OF this] assms(2) show ?thesis
    by (simp add: enterState_def emit_def)
next
  case LOADING
  then show ?thesis
    using assms(1) by (auto simp add: changeState_def enterState_def emit_def)
next
  case IDLE
  then show ?thesis
    using assms(1) by (auto simp add: changeState_def enterState_def emit_def)
next
  case GAME_OVER
  then show ?thesis
    using assms(1) by (auto simp add: changeState_def enterState_def emit_def)
qed

lemma step_requests_no_frame:
  assumes "step ext e g = Ok g'" and "currentState g' \<noteq> PLAYING"
  shows "pending g' \<le> pending g"
proof (cases e)
  case (Action w h t0 t1)
  then have h: "handleAction ext w h t0 t1 g = Ok g'"
    using assms(1) by simp
  show ?thesis
  proof (cases "currentState g")
    case LOADING
    then show ?thesis using h by (simp add: handleAction_def actionByStateMap_def)
  next
    case PLAYING
    then show ?thesis
      using h by (auto simp add: handleAction_def actionByStateMap_def Bird_flap_def emit_def
            split: option.splits)
  next
    case IDLE
    then have "start ext w h t0 t1 g = Ok g'"
      using h by (simp add: handleAction_def actionByStateMap_def)
    then obtain g1 where r: "reset ext w h t0 g = Ok g1"
      and c: "changeState ext t1 PLAYING ((emit [Play SwooshingSound] g1)\<lparr>lastUpdate := Some t0\<rparr>) = Ok g'"
      unfolding start_def andThen_Ok by blast
    show ?thesis
      using changeState_pending [OF c assms(2)] reset_pending [OF r] by (simp add: emit_def)
  next
    case GAME_OVER
    then have "start ext w h t0 t1 g = Ok g'"
      using h by (simp add: handleAction_def actionByStateMap_def)
    then obtain g1 where r: "reset ext w h t0 g = Ok g1"
      and c: "changeState ext t1 PLAYING ((emit [Play SwooshingSound] g1)\<lparr>lastUpdate := Some t0\<rparr>) = Ok g'"
      unfolding start_def andThen_Ok by blast
    show ?thesis
      using changeState_pending [OF c assms(2)] reset_pending [OF r] by (simp add: emit_def)
  qed
next
  case (Resize w h now)
  then have r: "resize ext w h now g = Ok g'"
    using assms(1) by simp
  then obtain sc where sc: "scene g = Some sc"
    by (auto simp add: resize_def Let_def split: option.splits)
  define g2 where "g2 = emit [ResizeSurface w h] (g\<lparr>canvas := (w, h), scene := Some (Scene_resize w h sc)\<rparr>)"
  from r sc obtain g3 where g3: "generateBackgrounds g2 = Ok g3"
    and g': "changeState ext now (currentState g3) g3 = Ok g'"
    unfolding resize_def Let_def g2_def by (auto simp add: andThen_Ok)
  have "pending g3 = pending g"
    using generateBackgrounds_pending [OF g3] by (simp add: g2_def emit_def)
  then show ?thesis
    using changeState_pending [OF g' assms(2)] by simp
next
  case (Frame now)
  show ?thesis
  proof (cases "pending g = 0")
    case True
    then show ?thesis using assms(1) Frame by simp
  next
    case False
    then have "loop ext now (g\<lparr>pending := pending g - 1\<rparr>) = Ok g'"
      using assms(1) Frame by simp
    from loop_contract [OF this] assms(2) show ?thesis by simp
  qed
qed

text \<open>
  C2 fails on the code. The action starts the game (one run of the loop is pending); a resize
  while PLAYING calls \<^verbatim>\<open>_changeState(PLAYING)\<close>, whose handler runs the loop once more and
  requests a second run. When the bird has hit the floor in the first pending run, the state is
  GAME_OVER and that run requests nothing, but the second pending run still comes: it updates
  the game while the state is GAME_OVER, and the bird falls from y = 156 to y = 398.
\<close>

theorem pending_frame_runs_after_game_over:
  "observe (run example_ext [Action 100 100 0 0, Resize 100 100 100, Frame 1100] idle_game)
     = Some (GAME_OVER, 0, 0, 0, Some (10, 156))
   \<and> observe (run example_ext [Action 100 100 0 0, Resize 100 100 100, Frame 1100, Frame 1200]
                idle_game)
     = Some (GAME_OVER, 0, 0, 0, Some (10, 398))"
  by (simp add: game_defs generateBackgrounds_loop.simps idle_game_def
        example_config_def example_ext_def)


subsection \<open>Resize\<close>

text \<open>
  Before the first reset there is no scene, and a resize raises. While PLAYING, the state
  handler that a resize calls is the loop: the resize ends with one more run of it.
\<close>

lemma resize_without_scene:
  "scene g = None \<Longrightarrow> resize ext w h now g = Throw TypeError"
  by (simp add: resize_def)

lemma resize_playing_runs_loop:
  assumes "currentState g = PLAYING" and "scene g = Some sc"
  shows "resize ext w h now g =
     andThen (generateBackgrounds
                (emit [ResizeSurface w h] (g\<lparr>canvas := (w, h), scene := Some (Scene_resize w h sc)\<rparr>)))
       (\<lambda>g3. loop ext now (enterState PLAYING g3))"
proof -
  define g2 where
    "g2 = emit [ResizeSurface w h] (g\<lparr>canvas := (w, h), scene := Some (Scene_resize w h sc)\<rparr>)"
  have st: "currentState g2 = PLAYING"
    using assms(1) by (simp add: g2_def emit_def)
  have "andThen (generateBackgrounds g2) (\<lambda>g3. changeState ext now (currentState g3) g3)
      = andThen (generateBackgrounds g2) (\<lambda>g3. loop ext now (enterState PLAYING g3))"
  proof (cases "generateBackgrounds g2")
    case (Ok g3)
    then have "currentState g3 = PLAYING"
      using generateBackgrounds_fields(1) [OF Ok] st by simp
    then show ?thesis
      using Ok by (simp add: changeState_def)
  qed simp_all
  then show ?thesis
    using assms(2) by (simp add: resize_def Let_def g2_def)
qed

text \<open>
  C8 fails on the code while PLAYING: after the action has started the game, the bird is at
  y = 45; a resize to the same size a tenth of a second later runs the loop, and the bird is at
  y = 46; a resize two seconds later lets the bird reach the floor, and the state after the
  resize is GAME_OVER. (In a state other than PLAYING a resize that returns keeps state, score,
  level, high score and the bird: \<open>resize_keeps_progress\<close>.)
\<close>

theorem resize_while_playing_runs_tick:
  "observe (run example_ext [Action 100 100 0 0] idle_game)
     = Some (PLAYING, 0, 0, 0, Some (10, 45))
   \<and> observe (run example_ext [Action 100 100 0 0, Resize 100 100 100] idle_game)
     = Some (PLAYING, 0, 0, 0, Some (10, 46))
   \<and> observe (run example_ext [Action 100 100 0 0, Resize 100 100 2000] idle_game)
     = Some (GAME_OVER, 0, 0, 0, Some (10, 445))"
  by (simp add: game_defs generateBackgrounds_loop.simps idle_game_def
        example_config_def example_ext_def)


end
